theory Spec2Isabelle
  imports Complex_Main
begin

section \<open>Data model of the polyline drawing tool\<close>

text \<open>
  The embedding follows \<^verbatim>\<open>polyline-drawing-tool.ts\<close>. JavaScript numbers are
  modelled as \<^typ>\<open>real\<close> (no NaN, no infinities, no rounding error), \<^verbatim>\<open>null\<close> and
  \<^verbatim>\<open>undefined\<close> as \<^term>\<open>None\<close>. Console logging is a pure side channel and is left
  out. Record fields carry a short prefix where the source's field name would shadow a
  variable name or a field of another record.
\<close>

text \<open>
  \<^verbatim>\<open>Time = UTCTimestamp | BusinessDay | string\<close> of the chart library. The handlers
  test a time with \<^verbatim>\<open>!param.time\<close>, so JavaScript truthiness matters: the number
  \<^verbatim>\<open>0\<close> and the empty string are falsy, every object is truthy.
\<close>

datatype Time = UTCTimestamp real | BusinessDay int int int | TimeString string

fun truthy :: "Time \<Rightarrow> bool" where
  "truthy (UTCTimestamp n) = (n \<noteq> 0)"
| "truthy (BusinessDay yr mo dy) = True"
| "truthy (TimeString s) = (s \<noteq> [])"

record PolylinePoint =
  pt_time :: Time
  pt_price :: real

datatype LineStyle = Solid | Dashed

record PolylineOptions =
  color :: string
  lineWidth :: real
  lineStyle :: LineStyle
  dashPattern :: "real list option"
  pointRadius :: real
  pointColor :: string

text \<open>\<^verbatim>\<open>Partial<PolylineOptions>\<close>: a field is \<^term>\<open>None\<close> when the key is absent.\<close>

record PartialOptions =
  p_color :: "string option"
  p_lineWidth :: "real option"
  p_lineStyle :: "LineStyle option"
  p_dashPattern :: "real list option option"
  p_pointRadius :: "real option"
  p_pointColor :: "string option"

definition defaultOptions :: PolylineOptions where
  "defaultOptions =
     \<lparr>color = ''#2962FF'', lineWidth = 2, lineStyle = Solid, dashPattern = None,
      pointRadius = 4, pointColor = ''#2962FF''\<rparr>"

text \<open>The object spread \<^verbatim>\<open>{ ...base, ...over }\<close>: keys of \<open>over\<close> win.\<close>

definition spread :: "PolylineOptions \<Rightarrow> PartialOptions \<Rightarrow> PolylineOptions" where
  "spread base over =
     \<lparr>color = (case p_color over of Some v \<Rightarrow> v | None \<Rightarrow> color base),
      lineWidth = (case p_lineWidth over of Some v \<Rightarrow> v | None \<Rightarrow> lineWidth base),
      lineStyle = (case p_lineStyle over of Some v \<Rightarrow> v | None \<Rightarrow> lineStyle base),
      dashPattern = (case p_dashPattern over of Some v \<Rightarrow> v | None \<Rightarrow> dashPattern base),
      pointRadius = (case p_pointRadius over of Some v \<Rightarrow> v | None \<Rightarrow> pointRadius base),
      pointColor = (case p_pointColor over of Some v \<Rightarrow> v | None \<Rightarrow> pointColor base)\<rparr>"

record ViewPoint =
  vp_x :: "real option"
  vp_y :: "real option"

text \<open>The test \<^verbatim>\<open>point.x !== null && point.y !== null\<close> of the renderer.\<close>

definition drawable :: "ViewPoint \<Rightarrow> bool" where
  "drawable p \<longleftrightarrow> vp_x p \<noteq> None \<and> vp_y p \<noteq> None"

section \<open>The renderer\<close>

text \<open>
  \<^verbatim>\<open>PolylineRenderer.draw\<close> issues calls on a 2D canvas context. The model returns
  the calls in order. \<^verbatim>\<open>Math.round\<close> rounds halves towards plus infinity.
\<close>

datatype canvas_op =
    Save
  | Restore
  | SetFillStyle string
  | SetStrokeStyle string
  | SetLineWidth real
  | SetLineDash "real list"
  | BeginPath
  | MoveTo int int
  | LineTo int int
  | Arc int int real real real
  | Stroke
  | Fill

definition math_round :: "real \<Rightarrow> int" where
  "math_round r = \<lfloor>r + 1 / 2\<rfloor>"

record RendererData =
  d_points :: "ViewPoint list"
  d_options :: PolylineOptions
  d_tempPoint :: "ViewPoint option"

text \<open>The body of \<^verbatim>\<open>for (let i = 1; i < points.length; i++)\<close>, run over the points after the first.\<close>

fun line_loop :: "real \<Rightarrow> real \<Rightarrow> ViewPoint list \<Rightarrow> canvas_op list" where
  "line_loop h v [] = []"
| "line_loop h v (p # ps) =
     (case vp_x p of
        None \<Rightarrow> line_loop h v ps
      | Some px \<Rightarrow>
          (case vp_y p of
             None \<Rightarrow> line_loop h v ps
           | Some py \<Rightarrow> LineTo (math_round (px * h)) (math_round (py * v)) # line_loop h v ps))"

text \<open>The body of \<^verbatim>\<open>for (const point of points)\<close> that paints the markers.\<close>

fun marker_loop :: "PolylineOptions \<Rightarrow> real \<Rightarrow> real \<Rightarrow> ViewPoint list \<Rightarrow> canvas_op list" where
  "marker_loop opts h v [] = []"
| "marker_loop opts h v (p # ps) =
     (case vp_x p of
        None \<Rightarrow> marker_loop opts h v ps
      | Some px \<Rightarrow>
          (case vp_y p of
             None \<Rightarrow> marker_loop opts h v ps
           | Some py \<Rightarrow>
               [BeginPath,
                Arc (math_round (px * h)) (math_round (py * v)) (pointRadius opts * h) 0 (2 * pi),
                Fill] @ marker_loop opts h v ps))"

text \<open>
  \<^verbatim>\<open>tempPoint && tempPoint.x !== null && tempPoint.y !== null\<close>, returning the two
  numbers when the test succeeds.
\<close>

definition temp_xy :: "ViewPoint option \<Rightarrow> (real \<times> real) option" where
  "temp_xy tp =
     (case tp of
        None \<Rightarrow> None
      | Some p \<Rightarrow>
          (case vp_x p of
             None \<Rightarrow> None
           | Some px \<Rightarrow> (case vp_y p of None \<Rightarrow> None | Some py \<Rightarrow> Some (px, py))))"

definition dash_ops :: "PolylineOptions \<Rightarrow> real \<Rightarrow> canvas_op list" where
  "dash_ops opts h =
     (if lineStyle opts = Dashed then
        (case dashPattern opts of
           Some dp \<Rightarrow> [SetLineDash (map (\<lambda>p. p * h) dp)]
         | None \<Rightarrow> [SetLineDash [5 * h, 5 * h]])
      else [])"

text \<open>
  \<^verbatim>\<open>draw\<close>, with \<open>h\<close> and \<open>v\<close> the horizontal and vertical pixel ratios of the
  bitmap coordinate space.
\<close>

definition draw :: "RendererData \<Rightarrow> real \<Rightarrow> real \<Rightarrow> canvas_op list" where
  "draw d h v =
     (let pts = d_points d; opts = d_options d; tp = d_tempPoint d in
      Save #
      (if pts = [] \<and> temp_xy tp \<noteq> None then
         (case temp_xy tp of
            Some (tx, ty) \<Rightarrow>
              [SetFillStyle (pointColor opts),
               BeginPath,
               Arc (math_round (tx * h)) (math_round (ty * v)) (pointRadius opts * h) 0 (2 * pi),
               Fill,
               Restore]
          | None \<Rightarrow> [])
       else if pts = [] then [Restore]
       else
         [SetStrokeStyle (color opts), SetLineWidth (lineWidth opts * h)] @
         dash_ops opts h @
         [BeginPath] @
         (case pts of
            [] \<Rightarrow> []
          | firstPoint # rest \<Rightarrow>
              (case vp_x firstPoint of
                 None \<Rightarrow> []
               | Some fx \<Rightarrow>
                   (case vp_y firstPoint of
                      None \<Rightarrow> []
                    | Some fy \<Rightarrow>
                        MoveTo (math_round (fx * h)) (math_round (fy * v)) #
                        line_loop h v rest @
                        (case temp_xy tp of
                           Some (tx, ty) \<Rightarrow> [LineTo (math_round (tx * h)) (math_round (ty * v))]
                         | None \<Rightarrow> []) @
                        [Stroke, SetFillStyle (pointColor opts)] @
                        marker_loop opts h v pts))) @
         [Restore]))"

subsection \<open>What a sequence of canvas calls paints\<close>

text \<open>
  A small reading of the 2D-context path model, enough for the calls that \<^const>\<open>draw\<close>
  issues: \<^verbatim>\<open>beginPath\<close> empties the current path, \<^verbatim>\<open>moveTo\<close> places the pen,
  \<^verbatim>\<open>lineTo\<close> adds a straight segment from the pen (or only places the pen when the
  path has no point yet), \<^verbatim>\<open>arc\<close> adds a circle (centre and radius), \<^verbatim>\<open>stroke\<close>
  paints the segments of the current path and \<^verbatim>\<open>fill\<close> paints its circles.
  Style calls paint nothing.
\<close>

type_synonym pixel = "int \<times> int"

record canvas =
  pen :: "pixel option"
  pathLines :: "(pixel \<times> pixel) list"
  pathArcs :: "(pixel \<times> real) list"
  stroked :: "(pixel \<times> pixel) list"
  filled :: "(pixel \<times> real) list"

definition blank :: canvas where
  "blank = \<lparr>pen = None, pathLines = [], pathArcs = [], stroked = [], filled = []\<rparr>"

fun exec_op :: "canvas \<Rightarrow> canvas_op \<Rightarrow> canvas" where
  "exec_op c BeginPath = c\<lparr>pen := None, pathLines := [], pathArcs := []\<rparr>"
| "exec_op c (MoveTo px py) = c\<lparr>pen := Some (px, py)\<rparr>"
| "exec_op c (LineTo px py) =
     (case pen c of
        None \<Rightarrow> c\<lparr>pen := Some (px, py)\<rparr>
      | Some q \<Rightarrow> c\<lparr>pen := Some (px, py), pathLines := pathLines c @ [(q, (px, py))]\<rparr>)"
| "exec_op c (Arc px py r a0 a1) = c\<lparr>pathArcs := pathArcs c @ [((px, py), r)]\<rparr>"
| "exec_op c Stroke = c\<lparr>stroked := stroked c @ pathLines c\<rparr>"
| "exec_op c Fill = c\<lparr>filled := filled c @ pathArcs c\<rparr>"
| "exec_op c Save = c"
| "exec_op c Restore = c"
| "exec_op c (SetFillStyle s) = c"
| "exec_op c (SetStrokeStyle s) = c"
| "exec_op c (SetLineWidth w) = c"
| "exec_op c (SetLineDash ds) = c"

definition paint :: "canvas_op list \<Rightarrow> canvas" where
  "paint ops = foldl exec_op blank ops"

text \<open>The segments and the markers that a call of \<^const>\<open>draw\<close> leaves on the canvas.\<close>

definition segments :: "RendererData \<Rightarrow> real \<Rightarrow> real \<Rightarrow> (pixel \<times> pixel) list" where
  "segments d h v = stroked (paint (draw d h v))"

definition markers :: "RendererData \<Rightarrow> real \<Rightarrow> real \<Rightarrow> (pixel \<times> real) list" where
  "markers d h v = filled (paint (draw d h v))"

text \<open>The pixel of a view point with both coordinates, as \<^const>\<open>draw\<close> rounds it.\<close>

definition pixel_of :: "real \<Rightarrow> real \<Rightarrow> ViewPoint \<Rightarrow> pixel" where
  "pixel_of h v p =
     (math_round ((case vp_x p of Some px \<Rightarrow> px | None \<Rightarrow> 0) * h),
      math_round ((case vp_y p of Some py \<Rightarrow> py | None \<Rightarrow> 0) * v))"

text \<open>The straight segments that join a list of pixels in order.\<close>

fun chain :: "pixel list \<Rightarrow> (pixel \<times> pixel) list" where
  "chain [] = []"
| "chain [q] = []"
| "chain (q # r # rs) = (q, r) # chain (r # rs)"

text \<open>The pixel that the preview segment ends in, if the temp point can be drawn.\<close>

definition temp_pixel :: "real \<Rightarrow> real \<Rightarrow> ViewPoint option \<Rightarrow> pixel list" where
  "temp_pixel h v tp =
     (case temp_xy tp of
        Some (tx, ty) \<Rightarrow> [(math_round (tx * h), math_round (ty * v))]
      | None \<Rightarrow> [])"

text \<open>The marker of a committed point: its pixel and the scaled radius.\<close>

definition marker_of :: "PolylineOptions \<Rightarrow> real \<Rightarrow> real \<Rightarrow> ViewPoint \<Rightarrow> pixel \<times> real" where
  "marker_of opts h v p = (pixel_of h v p, pointRadius opts * h)"

section \<open>The tool, its pane view and the objects they share\<close>

text \<open>
  Arrays and option objects are JavaScript heap objects: the tool, the pane view, a
  renderer and a caller of \<^verbatim>\<open>getPoints\<close> may hold the same array. They live in an
  explicit store, one total map per kind of object, with one allocation counter
  \<open>nextAddr\<close>: the addresses below it are in use, a new object takes the address
  \<open>nextAddr\<close>. A field that holds such an object holds its address. A
  \<^verbatim>\<open>{ x, y }\<close> or \<^verbatim>\<open>{ time, price }\<close> object is never written after its creation
  and is kept as a value.

  The chart and the series are objects of the host. A handle is a number. The maps
  between logical and pixel coordinates depend on the viewport, which the host changes
  at will, so every operation that projects takes the current maps as a \<open>host\<close>.
\<close>

record host =
  priceToCoordinate :: "nat \<Rightarrow> real \<Rightarrow> real option"
  coordinateToPrice :: "nat \<Rightarrow> real \<Rightarrow> real option"
  timeToCoordinate :: "nat \<Rightarrow> Time \<Rightarrow> real option"

text \<open>
  Modelled from the spec: the subscriber registry of the host chart, which is not part of
  the sources at hand (``click and pointer-move notification subscription/unsubscription
  (register/unregister a callback; each notification carries: optional pixel point,
  optional time value)''). A callback is identified by the number of its closure.
\<close>

record chart_host =
  clickSubs :: "nat list"
  moveSubs :: "nat list"

text \<open>
  Modelled from the spec: \<^verbatim>\<open>subscribeClick\<close>, \<^verbatim>\<open>unsubscribeClick\<close>,
  \<^verbatim>\<open>subscribeCrosshairMove\<close> and \<^verbatim>\<open>unsubscribeCrosshairMove\<close> of the host chart
  (``register/unregister a callback''). Registering appends the callback, unregistering
  removes its first occurrence.
\<close>

definition subscribeClick :: "nat \<Rightarrow> chart_host \<Rightarrow> chart_host" where
  "subscribeClick cb ch = ch\<lparr>clickSubs := clickSubs ch @ [cb]\<rparr>"

definition unsubscribeClick :: "nat \<Rightarrow> chart_host \<Rightarrow> chart_host" where
  "unsubscribeClick cb ch = ch\<lparr>clickSubs := remove1 cb (clickSubs ch)\<rparr>"

definition subscribeCrosshairMove :: "nat \<Rightarrow> chart_host \<Rightarrow> chart_host" where
  "subscribeCrosshairMove cb ch = ch\<lparr>moveSubs := moveSubs ch @ [cb]\<rparr>"

definition unsubscribeCrosshairMove :: "nat \<Rightarrow> chart_host \<Rightarrow> chart_host" where
  "unsubscribeCrosshairMove cb ch = ch\<lparr>moveSubs := remove1 cb (moveSubs ch)\<rparr>"

text \<open>\<^verbatim>\<open>MouseEventParams\<close>, the two fields that the handlers read.\<close>

record MouseEventParams =
  ev_point :: "(real \<times> real) option"
  ev_time :: "Time option"

text \<open>The two style properties of the toolbar button that the tool writes.\<close>

record ButtonStyle =
  btn_backgroundColor :: string
  btn_color :: string

record PolylinePaneView =
  viewPoints :: nat
  tempViewPoint :: "ViewPoint option"

record PolylineDrawingTool =
  chart :: "nat option"
  series :: "nat option"
  points :: nat
  options :: nat
  active :: bool
  clickHandler :: "nat option"
  moveHandler :: "nat option"
  tempPoint :: "PolylinePoint option"
  requestUpdate :: "nat option"
  toolbarContainer :: bool
  toolbarButton :: "ButtonStyle option"

text \<open>
  The whole system: the tool, its single pane view (\<^verbatim>\<open>_paneViews\<close> has one element,
  whose \<^verbatim>\<open>_source\<close> is the tool), the store, the registries of the host charts, the
  counter that names new closures, and the calls of the repaint callback so far.
\<close>

record world =
  tool :: PolylineDrawingTool
  view :: PolylinePaneView
  vpHeap :: "nat \<Rightarrow> ViewPoint list"
  ptHeap :: "nat \<Rightarrow> PolylinePoint list"
  optHeap :: "nat \<Rightarrow> PolylineOptions"
  nextAddr :: nat
  charts :: "nat \<Rightarrow> chart_host"
  nextClosure :: nat
  repaintLog :: "nat list"

text \<open>The contents of \<^verbatim>\<open>_points\<close>, of \<^verbatim>\<open>_viewPoints\<close> and of \<^verbatim>\<open>_options\<close>.\<close>

definition committed :: "world \<Rightarrow> PolylinePoint list" where
  "committed w = ptHeap w (points (tool w))"

definition cached :: "world \<Rightarrow> ViewPoint list" where
  "cached w = vpHeap w (viewPoints (view w))"

definition currentOptions :: "world \<Rightarrow> PolylineOptions" where
  "currentOptions w = optHeap w (options (tool w))"

text \<open>
  The constructor: the field initialiser allocates \<^verbatim>\<open>_points\<close>, the body allocates
  the options object and the pane view with its empty \<^verbatim>\<open>_viewPoints\<close>.
\<close>

definition new_tool :: "PartialOptions \<Rightarrow> world" where
  "new_tool opts =
     \<lparr>tool = \<lparr>chart = None, series = None, points = 0, options = 1, active = False,
              clickHandler = None, moveHandler = None, tempPoint = None,
              requestUpdate = None, toolbarContainer = False, toolbarButton = None\<rparr>,
      view = \<lparr>viewPoints = 2, tempViewPoint = None\<rparr>,
      vpHeap = (\<lambda>a. []),
      ptHeap = (\<lambda>a. []),
      optHeap = (\<lambda>a. defaultOptions)(1 := spread defaultOptions opts),
      nextAddr = 3,
      charts = (\<lambda>c. \<lparr>clickSubs = [], moveSubs = []\<rparr>),
      nextClosure = 0,
      repaintLog = []\<rparr>"

subsection \<open>The pane view\<close>

text \<open>
  The callback of \<^verbatim>\<open>forEach\<close> in \<^verbatim>\<open>update\<close>, over the committed points in
  order: a point is pushed onto the fresh array only when both coordinates are there.
  The coordinate maps are declared to return a number or \<^verbatim>\<open>null\<close>; they do not
  throw in the model, so the \<^verbatim>\<open>catch\<close> branches, which only log, are never taken.
\<close>

fun convert_points :: "host \<Rightarrow> nat \<Rightarrow> nat \<Rightarrow> PolylinePoint list \<Rightarrow> ViewPoint list" where
  "convert_points hst s c [] = []"
| "convert_points hst s c (p # ps) =
     (let py = priceToCoordinate hst s (pt_price p);
          px = timeToCoordinate hst c (pt_time p)
      in if px \<noteq> None \<and> py \<noteq> None
         then \<lparr>vp_x = px, vp_y = py\<rparr> # convert_points hst s c ps
         else convert_points hst s c ps)"

definition convert_temp :: "host \<Rightarrow> nat \<Rightarrow> nat \<Rightarrow> PolylinePoint option \<Rightarrow> ViewPoint option" where
  "convert_temp hst s c tp =
     (case tp of
        None \<Rightarrow> None
      | Some p \<Rightarrow>
          (let py = priceToCoordinate hst s (pt_price p);
               px = timeToCoordinate hst c (pt_time p)
           in if px \<noteq> None \<and> py \<noteq> None then Some \<lparr>vp_x = px, vp_y = py\<rparr> else None))"

text \<open>\<^verbatim>\<open>PolylinePaneView.update\<close>.\<close>

definition update :: "host \<Rightarrow> world \<Rightarrow> world" where
  "update hst w =
     (case series (tool w) of
        None \<Rightarrow> w
      | Some s \<Rightarrow>
          (case chart (tool w) of
             None \<Rightarrow> w
           | Some c \<Rightarrow>
               w\<lparr>vpHeap := (vpHeap w)(nextAddr w := convert_points hst s c (committed w)),
                 nextAddr := Suc (nextAddr w),
                 view := \<lparr>viewPoints = nextAddr w,
                          tempViewPoint = convert_temp hst s c (tempPoint (tool w))\<rparr>\<rparr>))"

text \<open>
  \<^verbatim>\<open>PolylinePaneView.renderer\<close>: the new renderer holds the array and the options
  object themselves, not copies, and the temp view point.
\<close>

record PolylineRenderer =
  r_points :: nat
  r_options :: nat
  r_tempPoint :: "ViewPoint option"

definition renderer :: "world \<Rightarrow> PolylineRenderer" where
  "renderer w =
     \<lparr>r_points = viewPoints (view w), r_options = options (tool w),
      r_tempPoint = tempViewPoint (view w)\<rparr>"

text \<open>What a renderer reads from its \<^verbatim>\<open>_data\<close> when it draws in world \<open>w\<close>.\<close>

definition payload :: "world \<Rightarrow> PolylineRenderer \<Rightarrow> RendererData" where
  "payload w r =
     \<lparr>d_points = vpHeap w (r_points r), d_options = optHeap w (r_options r),
      d_tempPoint = r_tempPoint r\<rparr>"

subsection \<open>The drawing tool\<close>

text \<open>\<^verbatim>\<open>_updateView\<close>: calls the repaint callback when there is one.\<close>

definition updateView :: "world \<Rightarrow> world" where
  "updateView w =
     (case requestUpdate (tool w) of
        Some cb \<Rightarrow> w\<lparr>repaintLog := repaintLog w @ [cb]\<rparr>
      | None \<Rightarrow> w)"

definition activeStyle :: ButtonStyle where
  "activeStyle = \<lparr>btn_backgroundColor = ''rgba(41, 98, 255, 0.85)'', btn_color = ''white''\<rparr>"

definition inactiveStyle :: ButtonStyle where
  "inactiveStyle = \<lparr>btn_backgroundColor = ''rgba(255, 255, 255, 0.85)'', btn_color = ''#333''\<rparr>"

text \<open>
  \<^verbatim>\<open>activate\<close>. The two handlers are new closures; they are named by the next two
  closure numbers. The listener that \<^verbatim>\<open>activate\<close> adds to the chart's DOM element only
  logs and is left out with the logging.
\<close>

definition activate :: "nat \<Rightarrow> nat \<Rightarrow> world \<Rightarrow> world" where
  "activate c s w =
     (if active (tool w) then w
      else
        (let hc = nextClosure w; hm = Suc (nextClosure w) in
         w\<lparr>tool := (tool w)
              \<lparr>chart := Some c, series := Some s, active := True,
               toolbarButton := map_option (\<lambda>b. activeStyle) (toolbarButton (tool w)),
               clickHandler := Some hc, moveHandler := Some hm\<rparr>,
           charts := (charts w)(c := subscribeCrosshairMove hm (subscribeClick hc (charts w c))),
           nextClosure := Suc (Suc (nextClosure w))\<rparr>))"

text \<open>\<^verbatim>\<open>deactivate\<close>.\<close>

definition deactivate :: "world \<Rightarrow> world" where
  "deactivate w =
     (if \<not> active (tool w) then w
      else
        (case chart (tool w) of
           None \<Rightarrow> w
         | Some c \<Rightarrow>
             (let ch1 = (case clickHandler (tool w) of
                           Some hc \<Rightarrow> unsubscribeClick hc (charts w c)
                         | None \<Rightarrow> charts w c);
                  ch2 = (case moveHandler (tool w) of
                           Some hm \<Rightarrow> unsubscribeCrosshairMove hm ch1
                         | None \<Rightarrow> ch1)
              in updateView
                   (w\<lparr>tool := (tool w)
                        \<lparr>toolbarButton := map_option (\<lambda>b. inactiveStyle) (toolbarButton (tool w)),
                         clickHandler := None, moveHandler := None,
                         active := False, chart := None, series := None, tempPoint := None\<rparr>,
                      charts := (charts w)(c := ch2)\<rparr>))))"

text \<open>
  \<^verbatim>\<open>_addPoint\<close>. The guard tests the two fields for \<^verbatim>\<open>undefined\<close> and \<^verbatim>\<open>null\<close>,
  so they are optional here; \<^verbatim>\<open>push\<close> writes the array that \<^verbatim>\<open>_points\<close> holds, in
  place. The pane views are updated at once, then a repaint is requested.
\<close>

definition addPoint :: "host \<Rightarrow> Time option \<Rightarrow> real option \<Rightarrow> world \<Rightarrow> world" where
  "addPoint hst mt mp w =
     (case mt of
        None \<Rightarrow> w
      | Some t \<Rightarrow>
          (case mp of
             None \<Rightarrow> w
           | Some pr \<Rightarrow>
               updateView
                 (update hst
                    (w\<lparr>ptHeap := (ptHeap w)
                         (points (tool w) := ptHeap w (points (tool w)) @
                                             [\<lparr>pt_time = t, pt_price = pr\<rparr>])\<rparr>))))"

text \<open>The closure stored in \<^verbatim>\<open>_clickHandler\<close>. It reads the tool through \<^verbatim>\<open>this\<close>.\<close>

definition clickHandlerBody :: "host \<Rightarrow> MouseEventParams \<Rightarrow> world \<Rightarrow> world" where
  "clickHandlerBody hst param w =
     (if \<not> active (tool w) then w
      else
        (case ev_point param of
           None \<Rightarrow> w
         | Some pt \<Rightarrow>
             (case ev_time param of
                None \<Rightarrow> w
              | Some t \<Rightarrow>
                  if \<not> truthy t then w
                  else
                    (case series (tool w) of
                       None \<Rightarrow> w
                     | Some s \<Rightarrow>
                         (case coordinateToPrice hst s (snd pt) of
                            None \<Rightarrow> w
                          | Some pr \<Rightarrow> addPoint hst (Some t) (Some pr) w)))))"

text \<open>The closure stored in \<^verbatim>\<open>_moveHandler\<close>.\<close>

definition moveHandlerBody :: "host \<Rightarrow> MouseEventParams \<Rightarrow> world \<Rightarrow> world" where
  "moveHandlerBody hst param w =
     (let clear = updateView (w\<lparr>tool := (tool w)\<lparr>tempPoint := None\<rparr>\<rparr>) in
      if \<not> active (tool w) then clear
      else
        (case ev_point param of
           None \<Rightarrow> clear
         | Some pt \<Rightarrow>
             (case ev_time param of
                None \<Rightarrow> clear
              | Some t \<Rightarrow>
                  if \<not> truthy t then clear
                  else
                    (case series (tool w) of
                       None \<Rightarrow> clear
                     | Some s \<Rightarrow>
                         (case coordinateToPrice hst s (snd pt) of
                            None \<Rightarrow> clear
                          | Some pr \<Rightarrow>
                              updateView
                                (w\<lparr>tool := (tool w)
                                     \<lparr>tempPoint := Some \<lparr>pt_time = t, pt_price = pr\<rparr>\<rparr>\<rparr>))))))"

text \<open>\<^verbatim>\<open>clearPoints\<close>: \<^verbatim>\<open>_points\<close> becomes a new empty array.\<close>

definition clearPoints :: "world \<Rightarrow> world" where
  "clearPoints w =
     updateView
       (w\<lparr>ptHeap := (ptHeap w)(nextAddr w := []),
          nextAddr := Suc (nextAddr w),
          tool := (tool w)\<lparr>points := nextAddr w, tempPoint := None\<rparr>\<rparr>)"

text \<open>\<^verbatim>\<open>applyOptions\<close>: \<^verbatim>\<open>_options\<close> becomes a new object, the spread of the old one and the argument.\<close>

definition applyOptions :: "PartialOptions \<Rightarrow> world \<Rightarrow> world" where
  "applyOptions po w =
     updateView
       (w\<lparr>optHeap := (optHeap w)(nextAddr w := spread (optHeap w (options (tool w))) po),
          nextAddr := Suc (nextAddr w),
          tool := (tool w)\<lparr>options := nextAddr w\<rparr>\<rparr>)"

text \<open>
  \<^verbatim>\<open>getPoints\<close>: \<^verbatim>\<open>[...this._points]\<close> is a new array with the same elements. The
  result is its address, together with the world that holds it. The copy is shallow: the
  new array shares its \<^verbatim>\<open>{ time, price }\<close> elements with \<^verbatim>\<open>_points\<close>. Elements are
  values here, so the store tells apart the two arrays (their length and their slots)
  and says nothing about a write to a field of a shared element.
\<close>

definition getPoints :: "world \<Rightarrow> nat \<times> world" where
  "getPoints w =
     (nextAddr w,
      w\<lparr>ptHeap := (ptHeap w)(nextAddr w := ptHeap w (points (tool w))),
        nextAddr := Suc (nextAddr w)\<rparr>)"

text \<open>\<^verbatim>\<open>paneViews\<close> updates the pane view, then returns it.\<close>

definition paneViews :: "host \<Rightarrow> world \<Rightarrow> world" where
  "paneViews hst w = update hst w"

definition attached :: "nat \<Rightarrow> world \<Rightarrow> world" where
  "attached cb w = w\<lparr>tool := (tool w)\<lparr>requestUpdate := Some cb\<rparr>\<rparr>"

definition detached :: "world \<Rightarrow> world" where
  "detached w = (let w1 = deactivate w in w1\<lparr>tool := (tool w1)\<lparr>requestUpdate := None\<rparr>\<rparr>)"

text \<open>
  \<^verbatim>\<open>setupToolbar\<close> with \<^verbatim>\<open>_createToolbarButton\<close>, as far as the fields of the tool
  go, and a click on the draw button. The DOM itself is outside the model.
\<close>

definition setupToolbar :: "world \<Rightarrow> world" where
  "setupToolbar w =
     w\<lparr>tool := (tool w)
          \<lparr>toolbarContainer := True,
           toolbarButton :=
             Some \<lparr>btn_backgroundColor = ''rgba(255, 255, 255, 0.85)'', btn_color = []\<rparr>\<rparr>\<rparr>"

definition toolbarButtonClick :: "world \<Rightarrow> world" where
  "toolbarButtonClick w =
     (if active (tool w) then
        (let w1 = deactivate w in
         w1\<lparr>tool := (tool w1)\<lparr>toolbarButton := map_option (\<lambda>b. inactiveStyle) (toolbarButton (tool w1))\<rparr>\<rparr>)
      else
        (case chart (tool w) of
           None \<Rightarrow> w
         | Some c \<Rightarrow>
             (case series (tool w) of
                None \<Rightarrow> w
              | Some s \<Rightarrow>
                  (let w1 = activate c s w in
                   w1\<lparr>tool := (tool w1)\<lparr>toolbarButton := map_option (\<lambda>b. activeStyle) (toolbarButton (tool w1))\<rparr>\<rparr>))))"

text \<open>
  Modelled from the spec: how the host chart delivers a click or a pointer move, which is
  not part of the sources at hand. The chart with handle \<open>c\<close> calls each callback
  registered with it, in order. Every registered callback is a closure of this tool.
\<close>

definition fireClick :: "host \<Rightarrow> nat \<Rightarrow> MouseEventParams \<Rightarrow> world \<Rightarrow> world" where
  "fireClick hst c param w =
     foldl (\<lambda>w' cb. clickHandlerBody hst param w') w (clickSubs (charts w c))"

text \<open>
  Modelled from the spec: the delivery of a pointer move by the chart with handle \<open>c\<close>,
  to each callback registered for moves, in order.
\<close>

definition fireMove :: "host \<Rightarrow> nat \<Rightarrow> MouseEventParams \<Rightarrow> world \<Rightarrow> world" where
  "fireMove hst c param w =
     foldl (\<lambda>w' cb. moveHandlerBody hst param w') w (moveSubs (charts w c))"

text \<open>
  The worlds that the operations can produce from a new tool. The host may change its
  coordinate maps between any two steps. \<^verbatim>\<open>_addPoint\<close> and \<^verbatim>\<open>_updateView\<close> are
  steps of their own because the example page calls them directly.
\<close>

inductive reachable :: "world \<Rightarrow> bool" where
  r_new: "reachable (new_tool opts)"
| r_attached: "reachable w \<Longrightarrow> reachable (attached cb w)"
| r_detached: "reachable w \<Longrightarrow> reachable (detached w)"
| r_activate: "reachable w \<Longrightarrow> reachable (activate c s w)"
| r_deactivate: "reachable w \<Longrightarrow> reachable (deactivate w)"
| r_click: "reachable w \<Longrightarrow> reachable (fireClick hst c param w)"
| r_move: "reachable w \<Longrightarrow> reachable (fireMove hst c param w)"
| r_addPoint: "reachable w \<Longrightarrow> reachable (addPoint hst mt mp w)"
| r_updateView: "reachable w \<Longrightarrow> reachable (updateView w)"
| r_clearPoints: "reachable w \<Longrightarrow> reachable (clearPoints w)"
| r_applyOptions: "reachable w \<Longrightarrow> reachable (applyOptions po w)"
| r_getPoints: "reachable w \<Longrightarrow> reachable (snd (getPoints w))"
| r_paneViews: "reachable w \<Longrightarrow> reachable (paneViews hst w)"
| r_update: "reachable w \<Longrightarrow> reachable (update hst w)"
| r_setupToolbar: "reachable w \<Longrightarrow> reachable (setupToolbar w)"
| r_toolbarButtonClick: "reachable w \<Longrightarrow> reachable (toolbarButtonClick w)"

section \<open>Notions used to state the properties\<close>

text \<open>A committed point resolves when the host maps both its time and its price to a pixel.\<close>

definition resolvable :: "host \<Rightarrow> nat \<Rightarrow> nat \<Rightarrow> PolylinePoint \<Rightarrow> bool" where
  "resolvable hst s c p \<longleftrightarrow>
     timeToCoordinate hst c (pt_time p) \<noteq> None \<and> priceToCoordinate hst s (pt_price p) \<noteq> None"

definition project :: "host \<Rightarrow> nat \<Rightarrow> nat \<Rightarrow> PolylinePoint \<Rightarrow> ViewPoint" where
  "project hst s c p =
     \<lparr>vp_x = timeToCoordinate hst c (pt_time p), vp_y = priceToCoordinate hst s (pt_price p)\<rparr>"

definition no_subs :: chart_host where
  "no_subs = \<lparr>clickSubs = [], moveSubs = []\<rparr>"

text \<open>
  The registrations at the host that go with the fields of the tool: the two handlers
  are registered once each with the stored chart, and nothing else is registered.
\<close>

definition registered :: "PolylineDrawingTool \<Rightarrow> nat \<Rightarrow> chart_host" where
  "registered t c =
     (if chart t = Some c
      then \<lparr>clickSubs = (case clickHandler t of Some hc \<Rightarrow> [hc] | None \<Rightarrow> []),
            moveSubs = (case moveHandler t of Some hm \<Rightarrow> [hm] | None \<Rightarrow> [])\<rparr>
      else no_subs)"

text \<open>
  What holds in every world that the operations produce: the three object fields hold
  allocated addresses, the cache holds drawable view points only, and the handles, the
  handlers and the registrations at the host go together with the activation flag.
\<close>

definition consistent :: "world \<Rightarrow> bool" where
  "consistent w \<longleftrightarrow>
     points (tool w) < nextAddr w \<and>
     options (tool w) < nextAddr w \<and>
     viewPoints (view w) < nextAddr w \<and>
     list_all drawable (cached w) \<and>
     (case tempViewPoint (view w) of None \<Rightarrow> True | Some p \<Rightarrow> drawable p) \<and>
     (if active (tool w)
      then chart (tool w) \<noteq> None \<and> series (tool w) \<noteq> None \<and>
           clickHandler (tool w) \<noteq> None \<and> moveHandler (tool w) \<noteq> None
      else chart (tool w) = None \<and> series (tool w) = None \<and>
           clickHandler (tool w) = None \<and> moveHandler (tool w) = None) \<and>
     charts w = registered (tool w)"

text \<open>The array that \<^const>\<open>getPoints\<close> returned, as its caller reads it.\<close>

definition returned :: "nat \<times> world \<Rightarrow> PolylinePoint list" where
  "returned r = ptHeap (snd r) (fst r)"

text \<open>
  The point that a click commits through series \<open>s\<close>, if the click handler accepts the
  event: a pixel point, a truthy time and a price for the y-coordinate.
\<close>

definition clicked :: "nat \<Rightarrow> host \<times> MouseEventParams \<Rightarrow> PolylinePoint option" where
  "clicked s e =
     (case ev_point (snd e) of
        None \<Rightarrow> None
      | Some pt \<Rightarrow>
          (case ev_time (snd e) of
             None \<Rightarrow> None
           | Some t \<Rightarrow>
               if truthy t
               then map_option (\<lambda>pr. \<lparr>pt_time = t, pt_price = pr\<rparr>)
                      (coordinateToPrice (fst e) s (snd pt))
               else None))"

text \<open>Clicks delivered one after the other by chart \<open>c\<close>, each under the host's maps of its moment.\<close>

definition clicks :: "nat \<Rightarrow> (host \<times> MouseEventParams) list \<Rightarrow> world \<Rightarrow> world" where
  "clicks c es w = foldl (\<lambda>w' e. fireClick (fst e) c (snd e) w') w es"

section \<open>Concrete inputs\<close>

subsection \<open>Renderer payloads used as concrete inputs\<close>

definition ex_null_first :: RendererData where
  "ex_null_first =
     \<lparr>d_points = [\<lparr>vp_x = None, vp_y = None\<rparr>,
                  \<lparr>vp_x = Some 10, vp_y = Some 20\<rparr>,
                  \<lparr>vp_x = Some 30, vp_y = Some 40\<rparr>],
      d_options = defaultOptions,
      d_tempPoint = None\<rparr>"

definition ex_null_middle :: RendererData where
  "ex_null_middle =
     \<lparr>d_points = [\<lparr>vp_x = Some 10, vp_y = Some 20\<rparr>,
                  \<lparr>vp_x = None, vp_y = None\<rparr>,
                  \<lparr>vp_x = Some 30, vp_y = Some 40\<rparr>],
      d_options = defaultOptions,
      d_tempPoint = Some \<lparr>vp_x = Some 50, vp_y = Some 60\<rparr>\<rparr>"

definition ex_preview :: RendererData where
  "ex_preview =
     \<lparr>d_points = [], d_options = defaultOptions,
      d_tempPoint = Some \<lparr>vp_x = Some 3, vp_y = Some 7\<rparr>\<rparr>"

definition ex_empty :: RendererData where
  "ex_empty = \<lparr>d_points = [], d_options = defaultOptions, d_tempPoint = None\<rparr>"

subsection \<open>Hosts, events and worlds used as concrete inputs\<close>

text \<open>
  A host whose viewport shows every timestamp at the pixel of the same number and price
  \<open>p\<close> at pixel \<open>300 - p\<close>, and a host scrolled by 150 pixels, which no longer
  shows timestamps below 150.
\<close>

definition ex_host :: host where
  "ex_host =
     \<lparr>priceToCoordinate = (\<lambda>s p. Some (300 - p)),
      coordinateToPrice = (\<lambda>s y. Some (300 - y)),
      timeToCoordinate = (\<lambda>c t. case t of UTCTimestamp n \<Rightarrow> Some n | _ \<Rightarrow> None)\<rparr>"

definition ex_host_scrolled :: host where
  "ex_host_scrolled =
     \<lparr>priceToCoordinate = (\<lambda>s p. Some (300 - p)),
      coordinateToPrice = (\<lambda>s y. Some (300 - y)),
      timeToCoordinate =
        (\<lambda>c t. case t of
                  UTCTimestamp n \<Rightarrow> if n < 150 then None else Some (n - 150)
                | _ \<Rightarrow> None)\<rparr>"

definition no_options :: PartialOptions where
  "no_options =
     \<lparr>p_color = None, p_lineWidth = None, p_lineStyle = None, p_dashPattern = None,
      p_pointRadius = None, p_pointColor = None\<rparr>"

definition red_options :: PartialOptions where
  "red_options = no_options\<lparr>p_color := Some ''#FF0000'', p_pointColor := Some ''#FF0000''\<rparr>"

definition ex_click1 :: MouseEventParams where
  "ex_click1 = \<lparr>ev_point = Some (100, 290), ev_time = Some (UTCTimestamp 100)\<rparr>"

definition ex_click2 :: MouseEventParams where
  "ex_click2 = \<lparr>ev_point = Some (200, 280), ev_time = Some (UTCTimestamp 200)\<rparr>"

definition ex_move :: MouseEventParams where
  "ex_move = \<lparr>ev_point = Some (250, 275), ev_time = Some (UTCTimestamp 250)\<rparr>"

definition ex_click_epoch :: MouseEventParams where
  "ex_click_epoch = \<lparr>ev_point = Some (0, 290), ev_time = Some (UTCTimestamp 0)\<rparr>"

text \<open>
  A new tool, attached with repaint callback 7, activated on chart 0 and series 0, after
  two clicks, after a pointer move, and deactivated again.
\<close>

definition ex_attached :: world where
  "ex_attached = attached 7 (new_tool no_options)"

definition ex_active :: world where
  "ex_active = activate 0 0 ex_attached"

definition ex_one :: world where
  "ex_one = fireClick ex_host 0 ex_click1 ex_active"

definition ex_two :: world where
  "ex_two = fireClick ex_host 0 ex_click2 ex_one"

definition ex_moved :: world where
  "ex_moved = fireMove ex_host 0 ex_move ex_two"

definition ex_polled :: world where
  "ex_polled = paneViews ex_host ex_moved"

definition ex_off :: world where
  "ex_off = deactivate ex_polled"

text \<open>
  A new tool that was never attached, so that it has no repaint callback, and the same
  tool activated on chart 0 and series 0.
\<close>

definition ex_new :: world where
  "ex_new = new_tool no_options"

definition ex_unattached :: world where
  "ex_unattached = activate 0 0 ex_new"

section \<open>Properties of the renderer\<close>

lemma line_loop_filter:
  "line_loop h v ps =
     map (\<lambda>p. LineTo (fst (pixel_of h v p)) (snd (pixel_of h v p))) (filter drawable ps)"
  by (induction ps) (auto simp: drawable_def pixel_of_def split: option.splits)

lemma marker_loop_filter:
  "marker_loop opts h v ps =
     concat (map (\<lambda>p. [BeginPath,
                         Arc (fst (pixel_of h v p)) (snd (pixel_of h v p)) (pointRadius opts * h) 0 (2 * pi),
                         Fill]) (filter drawable ps))"
  by (induction ps) (auto simp: drawable_def pixel_of_def split: option.splits)

lemma exec_lines:
  "pen c = Some q \<Longrightarrow>
   foldl exec_op c (map (\<lambda>r. LineTo (fst r) (snd r)) qs) =
     c\<lparr>pen := Some (last (q # qs)), pathLines := pathLines c @ chain (q # qs)\<rparr>"
proof (induction qs arbitrary: c q)
  case Nil
  then show ?case by simp
next
  case (Cons r rs)
  let ?c = "exec_op c (LineTo (fst r) (snd r))"
  have pen: "pen ?c = Some r" using Cons.prems by simp
  have "foldl exec_op c (map (\<lambda>r. LineTo (fst r) (snd r)) (r # rs)) =
        foldl exec_op ?c (map (\<lambda>r. LineTo (fst r) (snd r)) rs)" by simp
  also have "\<dots> = ?c\<lparr>pen := Some (last (r # rs)), pathLines := pathLines ?c @ chain (r # rs)\<rparr>"
    by (rule Cons.IH [OF pen])
  also have "\<dots> = c\<lparr>pen := Some (last (q # r # rs)), pathLines := pathLines c @ chain (q # r # rs)\<rparr>"
    using Cons.prems by simp
  finally show ?case .
qed

lemma exec_markers:
  "filled (foldl exec_op c (concat (map (\<lambda>p. [BeginPath, Arc (fst (f p)) (snd (f p)) r a0 a1, Fill]) ds))) =
     filled c @ map (\<lambda>p. (f p, r)) ds \<and>
   stroked (foldl exec_op c (concat (map (\<lambda>p. [BeginPath, Arc (fst (f p)) (snd (f p)) r a0 a1, Fill]) ds))) =
     stroked c"
  by (induction ds arbitrary: c) simp_all

lemma exec_dash: "foldl exec_op c (dash_ops opts h) = c"
  by (simp add: dash_ops_def split: option.splits)


lemma draw_first_drawable:
  assumes pts: "d_points d = p # ps" and dr: "drawable p"
  shows "draw d h v =
     [Save, SetStrokeStyle (color (d_options d)), SetLineWidth (lineWidth (d_options d) * h)] @
     dash_ops (d_options d) h @
     [BeginPath, MoveTo (fst (pixel_of h v p)) (snd (pixel_of h v p))] @
     map (\<lambda>r. LineTo (fst r) (snd r))
       (map (pixel_of h v) (filter drawable ps) @ temp_pixel h v (d_tempPoint d)) @
     [Stroke, SetFillStyle (pointColor (d_options d))] @
     concat (map (\<lambda>q. [BeginPath,
                         Arc (fst (pixel_of h v q)) (snd (pixel_of h v q))
                           (pointRadius (d_options d) * h) 0 (2 * pi),
                         Fill]) (filter drawable (p # ps))) @
     [Restore]"
proof -
  obtain fx fy where xy: "vp_x p = Some fx" "vp_y p = Some fy"
    using dr by (auto simp: drawable_def)
  have px: "pixel_of h v p = (math_round (fx * h), math_round (fy * v))"
    by (simp add: pixel_of_def xy)
  have tl: "(case temp_xy (d_tempPoint d) of
               Some (tx, ty) \<Rightarrow> [LineTo (math_round (tx * h)) (math_round (ty * v))]
             | None \<Rightarrow> []) =
            map (\<lambda>r. LineTo (fst r) (snd r)) (temp_pixel h v (d_tempPoint d))"
    by (simp add: temp_pixel_def split: option.splits)
  show ?thesis
    unfolding draw_def Let_def
    by (simp add: pts xy px tl line_loop_filter marker_loop_filter dr o_def)
qed

lemma segments_first_drawable:
  assumes pts: "d_points d = p # ps" and dr: "drawable p"
  shows "segments d h v =
           chain (map (pixel_of h v) (filter drawable (p # ps)) @ temp_pixel h v (d_tempPoint d))"
    and "markers d h v = map (marker_of (d_options d) h v) (filter drawable (p # ps))"
proof -
  define qs where "qs = map (pixel_of h v) (filter drawable ps) @ temp_pixel h v (d_tempPoint d)"
  define ds where "ds = filter drawable (p # ps)"
  define r where "r = pointRadius (d_options d) * h"
  define ms where "ms = concat (map (\<lambda>q. [BeginPath,
                         Arc (fst (pixel_of h v q)) (snd (pixel_of h v q)) r 0 (2 * pi),
                         Fill]) ds)"
  define pre where "pre = [Save, SetStrokeStyle (color (d_options d)),
                           SetLineWidth (lineWidth (d_options d) * h)] @
                          dash_ops (d_options d) h @
                          [BeginPath, MoveTo (fst (pixel_of h v p)) (snd (pixel_of h v p))]"
  define c1 where "c1 = blank\<lparr>pen := Some (pixel_of h v p)\<rparr>"
  define c3 where "c3 = c1\<lparr>pen := Some (last (pixel_of h v p # qs)),
                           pathLines := chain (pixel_of h v p # qs),
                           stroked := chain (pixel_of h v p # qs)\<rparr>"
  have tr: "draw d h v =
              pre @ map (\<lambda>r. LineTo (fst r) (snd r)) qs @
              [Stroke, SetFillStyle (pointColor (d_options d))] @ ms @ [Restore]"
    unfolding draw_first_drawable [OF pts dr] pre_def qs_def ms_def ds_def r_def by simp
  have s1: "foldl exec_op blank pre = c1"
    unfolding pre_def c1_def by (simp add: exec_dash blank_def)
  have "pen c1 = Some (pixel_of h v p)" by (simp add: c1_def)
  from exec_lines [OF this, of qs]
  have s2: "foldl exec_op c1 (map (\<lambda>r. LineTo (fst r) (snd r)) qs) =
              c1\<lparr>pen := Some (last (pixel_of h v p # qs)),
                 pathLines := pathLines c1 @ chain (pixel_of h v p # qs)\<rparr>" .
  have run: "paint (draw d h v) = foldl exec_op c3 ms"
    unfolding paint_def tr foldl_append s1 s2
    by (simp add: c3_def c1_def blank_def)
  have m: "filled (foldl exec_op c3 ms) = filled c3 @ map (\<lambda>q. (pixel_of h v q, r)) ds"
          "stroked (foldl exec_op c3 ms) = stroked c3"
    using exec_markers [of c3 "pixel_of h v" r 0 "2 * pi" ds] unfolding ms_def by simp_all
  show "segments d h v =
           chain (map (pixel_of h v) (filter drawable (p # ps)) @ temp_pixel h v (d_tempPoint d))"
    unfolding segments_def run m using dr by (simp add: c3_def qs_def)
  show "markers d h v = map (marker_of (d_options d) h v) (filter drawable (p # ps))"
    unfolding markers_def run m
    by (simp add: c3_def c1_def blank_def marker_of_def [abs_def] ds_def r_def)
qed

lemma draw_first_unresolved:
  assumes pts: "d_points d = p # ps" and dr: "\<not> drawable p"
  shows "draw d h v =
     [Save, SetStrokeStyle (color (d_options d)), SetLineWidth (lineWidth (d_options d) * h)] @
     dash_ops (d_options d) h @ [BeginPath, Restore]"
  using dr unfolding draw_def Let_def
  by (auto simp: pts drawable_def split: option.splits)

lemma paint_first_unresolved:
  assumes pts: "d_points d = p # ps" and dr: "\<not> drawable p"
  shows "segments d h v = []" and "markers d h v = []"
  unfolding segments_def markers_def paint_def draw_first_unresolved [OF pts dr]
  by (simp_all add: exec_dash blank_def)

lemma chain_snoc: "xs \<noteq> [] \<Longrightarrow> chain (xs @ [t]) = chain xs @ [(last xs, t)]"
  by (induction xs rule: chain.induct) auto

lemma draw_preview:
  assumes "d_points d = []" and "temp_xy (d_tempPoint d) = Some (tx, ty)"
  shows "draw d h v =
           [Save, SetFillStyle (pointColor (d_options d)), BeginPath,
            Arc (math_round (tx * h)) (math_round (ty * v)) (pointRadius (d_options d) * h) 0 (2 * pi),
            Fill, Restore]"
  using assms by (simp add: draw_def Let_def)

lemma draw_nothing:
  assumes "d_points d = []" and "temp_xy (d_tempPoint d) = None"
  shows "draw d h v = [Save, Restore]"
  using assms by (simp add: draw_def)

lemma markers_ignore_temp:
  assumes "d_points d \<noteq> []"
  shows "markers d h v =
           (if drawable (hd (d_points d))
            then map (marker_of (d_options d) h v) (filter drawable (d_points d)) else [])"
proof -
  obtain p ps where pts: "d_points d = p # ps"
    using assms by (cases "d_points d") auto
  show ?thesis
    using segments_first_drawable(2) [OF pts] paint_first_unresolved(2) [OF pts]
    by (cases "drawable p") (simp_all add: pts)
qed

lemma segments_extend_temp:
  assumes "d_points d \<noteq> []"
  shows "segments d h v =
           segments (d\<lparr>d_tempPoint := None\<rparr>) h v @
           (if drawable (hd (d_points d))
            then map (\<lambda>t. (last (map (pixel_of h v) (filter drawable (d_points d))), t))
                   (temp_pixel h v (d_tempPoint d))
            else [])"
proof -
  obtain p ps where pts: "d_points d = p # ps"
    using assms by (cases "d_points d") auto
  have pts': "d_points (d\<lparr>d_tempPoint := None\<rparr>) = p # ps" by (simp add: pts)
  show ?thesis
  proof (cases "drawable p")
    case True
    have ne: "map (pixel_of h v) (filter drawable (p # ps)) \<noteq> []" using True by simp
    have tp: "temp_pixel h v (d_tempPoint d) = [] \<or> (\<exists>t. temp_pixel h v (d_tempPoint d) = [t])"
      by (auto simp: temp_pixel_def split: option.splits)
    have no: "temp_pixel h v None = []" by (simp add: temp_pixel_def temp_xy_def)
    from tp show ?thesis
    proof
      assume "temp_pixel h v (d_tempPoint d) = []"
      then show ?thesis
        using segments_first_drawable(1) [OF pts True, of h v]
              segments_first_drawable(1) [OF pts' True, of h v] True
        by (simp add: pts no)
    next
      assume "\<exists>t. temp_pixel h v (d_tempPoint d) = [t]"
      then obtain t where t: "temp_pixel h v (d_tempPoint d) = [t]" ..
      show ?thesis
        using segments_first_drawable(1) [OF pts True, of h v]
              segments_first_drawable(1) [OF pts' True, of h v] True chain_snoc [OF ne, of t]
        by (simp add: pts no t)
    qed
  next
    case False
    then show ?thesis
      using paint_first_unresolved(1) [OF pts False] paint_first_unresolved(1) [OF pts' False]
      by (simp add: pts)
  qed
qed

text \<open>
  C8. With no committed point, a drawable temp point gives exactly one preview marker at
  the temp point and no segment; without a drawable temp point nothing is painted. With
  committed points, the markers are those of the committed points alone; the temp point
  adds one segment at the end of the path and no marker.
\<close>

theorem draw_preview_and_markers:
  "(d_points d = [] \<and> temp_xy (d_tempPoint d) = Some (tx, ty) \<longrightarrow>
      draw d h v =
        [Save, SetFillStyle (pointColor (d_options d)), BeginPath,
         Arc (math_round (tx * h)) (math_round (ty * v)) (pointRadius (d_options d) * h) 0 (2 * pi),
         Fill, Restore] \<and>
      markers d h v = [((math_round (tx * h), math_round (ty * v)), pointRadius (d_options d) * h)] \<and>
      segments d h v = []) \<and>
   (d_points d = [] \<and> temp_xy (d_tempPoint d) = None \<longrightarrow>
      draw d h v = [Save, Restore] \<and> markers d h v = [] \<and> segments d h v = []) \<and>
   (d_points d \<noteq> [] \<longrightarrow>
      markers d h v =
        (if drawable (hd (d_points d))
         then map (marker_of (d_options d) h v) (filter drawable (d_points d)) else []) \<and>
      markers d h v = markers (d\<lparr>d_tempPoint := None\<rparr>) h v \<and>
      segments d h v =
        segments (d\<lparr>d_tempPoint := None\<rparr>) h v @
        (if drawable (hd (d_points d))
         then map (\<lambda>t. (last (map (pixel_of h v) (filter drawable (d_points d))), t))
                (temp_pixel h v (d_tempPoint d))
         else []))"
proof (intro conjI impI)
  assume a: "d_points d = [] \<and> temp_xy (d_tempPoint d) = Some (tx, ty)"
  then show "draw d h v =
        [Save, SetFillStyle (pointColor (d_options d)), BeginPath,
         Arc (math_round (tx * h)) (math_round (ty * v)) (pointRadius (d_options d) * h) 0 (2 * pi),
         Fill, Restore]"
    by (simp add: draw_preview)
  from a show "markers d h v =
      [((math_round (tx * h), math_round (ty * v)), pointRadius (d_options d) * h)]"
    by (simp add: markers_def paint_def draw_preview blank_def)
  from a show "segments d h v = []"
    by (simp add: segments_def paint_def draw_preview blank_def)
next
  assume a: "d_points d = [] \<and> temp_xy (d_tempPoint d) = None"
  then show "draw d h v = [Save, Restore]" by (simp add: draw_nothing)
  from a show "markers d h v = []" by (simp add: markers_def paint_def draw_nothing blank_def)
  from a show "segments d h v = []" by (simp add: segments_def paint_def draw_nothing blank_def)
next
  assume a: "d_points d \<noteq> []"
  then show "markers d h v =
        (if drawable (hd (d_points d))
         then map (marker_of (d_options d) h v) (filter drawable (d_points d)) else [])"
    by (rule markers_ignore_temp)
  from a have "d_points (d\<lparr>d_tempPoint := None\<rparr>) \<noteq> []" by simp
  from markers_ignore_temp [OF a, of h v] markers_ignore_temp [OF this, of h v]
  show "markers d h v = markers (d\<lparr>d_tempPoint := None\<rparr>) h v" by simp
  from a show "segments d h v =
        segments (d\<lparr>d_tempPoint := None\<rparr>) h v @
        (if drawable (hd (d_points d))
         then map (\<lambda>t. (last (map (pixel_of h v) (filter drawable (d_points d))), t))
                (temp_pixel h v (d_tempPoint d))
         else [])"
    by (rule segments_extend_temp)
qed

theorem draw_preview_and_markers_witness:
  "(draw ex_preview 2 2 =
      [Save, SetFillStyle ''#2962FF'', BeginPath, Arc 6 14 8 0 (2 * pi), Fill, Restore] \<and>
    markers ex_preview 2 2 = [((6, 14), 8)] \<and> segments ex_preview 2 2 = []) \<and>
   (draw ex_empty 2 2 = [Save, Restore] \<and> markers ex_empty 2 2 = [] \<and> segments ex_empty 2 2 = []) \<and>
   (markers ex_null_middle 1 1 = [((10, 20), 4), ((30, 40), 4)] \<and>
    markers ex_null_middle 1 1 = markers (ex_null_middle\<lparr>d_tempPoint := None\<rparr>) 1 1 \<and>
    segments ex_null_middle 1 1 =
      segments (ex_null_middle\<lparr>d_tempPoint := None\<rparr>) 1 1 @ [((30, 40), (50, 60))])"
proof -
  have p: "d_points ex_preview = [] \<and> temp_xy (d_tempPoint ex_preview) = Some (3, 7)"
    by (simp add: ex_preview_def temp_xy_def)
  have e: "d_points ex_empty = [] \<and> temp_xy (d_tempPoint ex_empty) = None"
    by (simp add: ex_empty_def temp_xy_def)
  have f: "d_points ex_null_middle =
             [\<lparr>vp_x = Some 10, vp_y = Some 20\<rparr>, \<lparr>vp_x = None, vp_y = None\<rparr>,
              \<lparr>vp_x = Some 30, vp_y = Some 40\<rparr>]"
           "d_options ex_null_middle = defaultOptions"
           "d_tempPoint ex_null_middle = Some \<lparr>vp_x = Some 50, vp_y = Some 60\<rparr>"
    by (simp_all add: ex_null_middle_def)
  have m: "d_points ex_null_middle \<noteq> []"
    by (simp add: f)
  have o: "pointColor (d_options ex_preview) = ''#2962FF''" "pointRadius (d_options ex_preview) = 4"
    by (simp_all add: ex_preview_def defaultOptions_def)
  from draw_preview_and_markers [of ex_preview 3 7 2 2] p
  have 1: "draw ex_preview 2 2 =
      [Save, SetFillStyle ''#2962FF'', BeginPath, Arc 6 14 8 0 (2 * pi), Fill, Restore] \<and>
    markers ex_preview 2 2 = [((6, 14), 8)] \<and> segments ex_preview 2 2 = []"
    by (simp add: o math_round_def)
  from draw_preview_and_markers [of ex_empty 0 0 2 2] e
  have 2: "draw ex_empty 2 2 = [Save, Restore] \<and> markers ex_empty 2 2 = [] \<and> segments ex_empty 2 2 = []"
    by simp
  have v1: "(if drawable (hd (d_points ex_null_middle))
              then map (marker_of (d_options ex_null_middle) 1 1)
                     (filter drawable (d_points ex_null_middle))
              else []) = [((10, 20), 4), ((30, 40), 4)]"
    by (simp add: f drawable_def marker_of_def pixel_of_def defaultOptions_def math_round_def)
  have v2: "(if drawable (hd (d_points ex_null_middle))
              then map (\<lambda>t. (last (map (pixel_of 1 1) (filter drawable (d_points ex_null_middle))), t))
                     (temp_pixel 1 1 (d_tempPoint ex_null_middle))
              else []) = [((30, 40), (50, 60))]"
    by (simp add: f drawable_def pixel_of_def temp_pixel_def temp_xy_def math_round_def)
  have 3: "markers ex_null_middle 1 1 = [((10, 20), 4), ((30, 40), 4)] \<and>
    markers ex_null_middle 1 1 = markers (ex_null_middle\<lparr>d_tempPoint := None\<rparr>) 1 1 \<and>
    segments ex_null_middle 1 1 =
      segments (ex_null_middle\<lparr>d_tempPoint := None\<rparr>) 1 1 @ [((30, 40), (50, 60))]"
    using draw_preview_and_markers [of ex_null_middle 0 0 1 1] m unfolding v1 v2 by blast
  from 1 2 3 show ?thesis by blast
qed


text \<open>
  C2, as the claim states it, fails when the unresolved point is the first one: nothing is
  stroked and no marker is painted, although two other committed points can be drawn.
\<close>

theorem draw_unresolved_first_counterexample:
  "d_points ex_null_first =
     [\<lparr>vp_x = None, vp_y = None\<rparr>, \<lparr>vp_x = Some 10, vp_y = Some 20\<rparr>,
      \<lparr>vp_x = Some 30, vp_y = Some 40\<rparr>] \<and>
   filter drawable (d_points ex_null_first) =
     [\<lparr>vp_x = Some 10, vp_y = Some 20\<rparr>, \<lparr>vp_x = Some 30, vp_y = Some 40\<rparr>] \<and>
   segments ex_null_first 1 1 = [] \<and>
   markers ex_null_first 1 1 = [] \<and>
   draw ex_null_first 1 1 = [Save, SetStrokeStyle ''#2962FF'', SetLineWidth 2, BeginPath, Restore] \<and>
   chain (map (pixel_of 1 1) (filter drawable (d_points ex_null_first))) = [((10, 20), (30, 40))] \<and>
   map (marker_of (d_options ex_null_first) 1 1) (filter drawable (d_points ex_null_first)) =
     [((10, 20), 4), ((30, 40), 4)]"
proof -
  have f: "d_points ex_null_first =
     [\<lparr>vp_x = None, vp_y = None\<rparr>, \<lparr>vp_x = Some 10, vp_y = Some 20\<rparr>,
      \<lparr>vp_x = Some 30, vp_y = Some 40\<rparr>]"
    by (simp add: ex_null_first_def)
  have n: "\<not> drawable \<lparr>vp_x = None, vp_y = None\<rparr>"
    by (simp add: drawable_def)
  have o: "d_options ex_null_first = defaultOptions"
    by (simp add: ex_null_first_def)
  have "draw ex_null_first 1 1 = [Save, SetStrokeStyle ''#2962FF'', SetLineWidth 2, BeginPath, Restore]"
    unfolding draw_first_unresolved [OF f n] o
    by (simp add: dash_ops_def defaultOptions_def)
  then show ?thesis
    using paint_first_unresolved [OF f n, of 1 1]
    by (simp add: f o drawable_def pixel_of_def marker_of_def defaultOptions_def math_round_def)
qed

text \<open>
  C2, amended. When the first committed point can be drawn, the stroked path joins the
  pixels of exactly the committed points that can be drawn, in order (and then the temp
  point, if any), and exactly those points get a marker: an unresolved point at any later
  position is left out of both. When the first committed point is unresolved, no segment
  is stroked and no marker is painted.
\<close>

theorem draw_skips_unresolved:
  assumes "d_points d = p # ps"
  shows "(drawable p \<longrightarrow>
            segments d h v =
              chain (map (pixel_of h v) (filter drawable (p # ps)) @
                     temp_pixel h v (d_tempPoint d)) \<and>
            markers d h v = map (marker_of (d_options d) h v) (filter drawable (p # ps))) \<and>
         (\<not> drawable p \<longrightarrow> segments d h v = [] \<and> markers d h v = [])"
  using segments_first_drawable [OF assms] paint_first_unresolved [OF assms] by blast

theorem draw_skips_unresolved_witness:
  "(segments ex_null_middle 1 1 = [((10, 20), (30, 40)), ((30, 40), (50, 60))] \<and>
    markers ex_null_middle 1 1 = [((10, 20), 4), ((30, 40), 4)]) \<and>
   (segments ex_null_first 1 1 = [] \<and> markers ex_null_first 1 1 = [])"
proof -
  have f: "d_points ex_null_middle =
             \<lparr>vp_x = Some 10, vp_y = Some 20\<rparr> #
             [\<lparr>vp_x = None, vp_y = None\<rparr>, \<lparr>vp_x = Some 30, vp_y = Some 40\<rparr>]"
    by (simp add: ex_null_middle_def)
  have g: "d_points ex_null_first =
             \<lparr>vp_x = None, vp_y = None\<rparr> #
             [\<lparr>vp_x = Some 10, vp_y = Some 20\<rparr>, \<lparr>vp_x = Some 30, vp_y = Some 40\<rparr>]"
    by (simp add: ex_null_first_def)
  have o: "d_options ex_null_middle = defaultOptions"
          "d_tempPoint ex_null_middle = Some \<lparr>vp_x = Some 50, vp_y = Some 60\<rparr>"
    by (simp_all add: ex_null_middle_def)
  have d: "drawable \<lparr>vp_x = Some 10, vp_y = Some 20\<rparr>" "\<not> drawable \<lparr>vp_x = None, vp_y = None\<rparr>"
    by (simp_all add: drawable_def)
  have v1: "chain (map (pixel_of 1 1)
                     (filter drawable (\<lparr>vp_x = Some 10, vp_y = Some 20\<rparr> #
                        [\<lparr>vp_x = None, vp_y = None\<rparr>, \<lparr>vp_x = Some 30, vp_y = Some 40\<rparr>])) @
                   temp_pixel 1 1 (d_tempPoint ex_null_middle)) =
            [((10, 20), (30, 40)), ((30, 40), (50, 60))]"
    by (simp add: o drawable_def pixel_of_def temp_pixel_def temp_xy_def math_round_def)
  have v2: "map (marker_of (d_options ex_null_middle) 1 1)
              (filter drawable (\<lparr>vp_x = Some 10, vp_y = Some 20\<rparr> #
                 [\<lparr>vp_x = None, vp_y = None\<rparr>, \<lparr>vp_x = Some 30, vp_y = Some 40\<rparr>])) =
            [((10, 20), 4), ((30, 40), 4)]"
    by (simp add: o drawable_def marker_of_def pixel_of_def defaultOptions_def math_round_def)
  show ?thesis
    using draw_skips_unresolved [OF f, of 1 1] draw_skips_unresolved [OF g, of 1 1] d
    unfolding v1 v2 by blast
qed

section \<open>Properties of the pane view and the tool\<close>

subsection \<open>The invariant\<close>

lemma convert_points_filter:
  "convert_points hst s c ps = map (project hst s c) (filter (resolvable hst s c) ps)"
  by (induction ps) (simp_all add: project_def resolvable_def Let_def)

lemma convert_points_drawable: "list_all drawable (convert_points hst s c ps)"
  by (induction ps) (simp_all add: drawable_def Let_def)

lemma convert_temp_drawable:
  "case convert_temp hst s c tp of None \<Rightarrow> True | Some p \<Rightarrow> drawable p"
  by (simp add: convert_temp_def drawable_def Let_def split: option.splits)

lemma consistent_new: "consistent (new_tool opts)"
  by (simp add: consistent_def new_tool_def cached_def registered_def no_subs_def fun_eq_iff)

lemma consistent_updateView: "consistent w \<Longrightarrow> consistent (updateView w)"
  by (auto simp: consistent_def updateView_def cached_def registered_def fun_eq_iff
        split: option.splits if_splits)

lemma consistent_update: "consistent w \<Longrightarrow> consistent (update hst w)"
  using convert_temp_drawable [of hst _ _ "tempPoint (tool w)"]
  by (auto simp: consistent_def update_def cached_def convert_points_drawable
           split: option.splits if_splits)

lemma consistent_attached: "consistent w \<Longrightarrow> consistent (attached cb w)"
  by (auto simp: consistent_def attached_def cached_def registered_def fun_eq_iff split: if_splits)

lemma consistent_activate: "consistent w \<Longrightarrow> consistent (activate c s w)"
  by (auto simp: consistent_def activate_def cached_def Let_def subscribeClick_def
        subscribeCrosshairMove_def no_subs_def registered_def fun_eq_iff split: if_splits)

lemma consistent_deactivate: "consistent w \<Longrightarrow> consistent (deactivate w)"
  by (auto simp: consistent_def deactivate_def updateView_def cached_def Let_def
        unsubscribeClick_def unsubscribeCrosshairMove_def no_subs_def registered_def fun_eq_iff
        split: option.splits if_splits)


lemma consistent_push:
  "consistent w \<Longrightarrow> consistent (w\<lparr>ptHeap := (ptHeap w)(a := xs)\<rparr>)"
  by (simp add: consistent_def cached_def)

lemma consistent_addPoint: "consistent w \<Longrightarrow> consistent (addPoint hst mt mp w)"
  unfolding addPoint_def
  by (auto intro!: consistent_updateView consistent_update consistent_push split: option.splits)

lemma consistent_clickHandlerBody: "consistent w \<Longrightarrow> consistent (clickHandlerBody hst param w)"
  unfolding clickHandlerBody_def
  by (auto intro!: consistent_addPoint split: option.splits)

lemma consistent_tempPoint:
  "consistent w \<Longrightarrow> consistent (w\<lparr>tool := (tool w)\<lparr>tempPoint := tp\<rparr>\<rparr>)"
  by (auto simp: consistent_def cached_def registered_def fun_eq_iff split: if_splits)

lemma consistent_moveHandlerBody: "consistent w \<Longrightarrow> consistent (moveHandlerBody hst param w)"
  unfolding moveHandlerBody_def Let_def
  by (auto intro!: consistent_updateView consistent_tempPoint split: option.splits)

lemma consistent_foldl:
  assumes "\<And>w. consistent w \<Longrightarrow> consistent (f w)"
  shows "consistent w \<Longrightarrow> consistent (foldl (\<lambda>w' cb. f w') w cbs)"
  by (induction cbs arbitrary: w) (simp_all add: assms)

lemma consistent_fireClick: "consistent w \<Longrightarrow> consistent (fireClick hst c param w)"
  unfolding fireClick_def by (rule consistent_foldl) (rule consistent_clickHandlerBody)

lemma consistent_fireMove: "consistent w \<Longrightarrow> consistent (fireMove hst c param w)"
  unfolding fireMove_def by (rule consistent_foldl) (rule consistent_moveHandlerBody)

lemma consistent_clearPoints: "consistent w \<Longrightarrow> consistent (clearPoints w)"
  unfolding clearPoints_def
  by (rule consistent_updateView)
     (auto simp: consistent_def cached_def registered_def fun_eq_iff split: if_splits)

lemma consistent_applyOptions: "consistent w \<Longrightarrow> consistent (applyOptions po w)"
  unfolding applyOptions_def
  by (rule consistent_updateView)
     (auto simp: consistent_def cached_def registered_def fun_eq_iff split: if_splits)

lemma consistent_getPoints: "consistent w \<Longrightarrow> consistent (snd (getPoints w))"
  by (auto simp: getPoints_def consistent_def cached_def split: if_splits)

lemma consistent_detached: "consistent w \<Longrightarrow> consistent (detached w)"
  using consistent_deactivate [of w]
  by (auto simp: detached_def Let_def consistent_def cached_def registered_def fun_eq_iff
        split: if_splits)

lemma consistent_setupToolbar: "consistent w \<Longrightarrow> consistent (setupToolbar w)"
  by (auto simp: setupToolbar_def consistent_def cached_def registered_def fun_eq_iff
        split: if_splits)

lemma consistent_toolbarButton:
  "consistent w \<Longrightarrow> consistent (w\<lparr>tool := (tool w)\<lparr>toolbarButton := b\<rparr>\<rparr>)"
  by (auto simp: consistent_def cached_def registered_def fun_eq_iff split: if_splits)

lemma consistent_toolbarButtonClick: "consistent w \<Longrightarrow> consistent (toolbarButtonClick w)"
  unfolding toolbarButtonClick_def Let_def
  by (auto intro!: consistent_toolbarButton consistent_deactivate consistent_activate
        split: option.splits)

lemma reachable_consistent: "reachable w \<Longrightarrow> consistent w"
proof (induction rule: reachable.induct)
  case (r_new opts)
  show ?case by (rule consistent_new)
next
  case (r_paneViews w hst)
  then show ?case by (simp add: paneViews_def consistent_update)
qed (simp_all add: consistent_attached consistent_detached consistent_activate
       consistent_deactivate consistent_fireClick consistent_fireMove consistent_addPoint
       consistent_updateView consistent_clearPoints consistent_applyOptions
       consistent_getPoints consistent_update consistent_setupToolbar
       consistent_toolbarButtonClick)

subsection \<open>The example worlds, evaluated\<close>

lemmas ops_defs = attached_def activate_def fireClick_def fireMove_def clickHandlerBody_def
  moveHandlerBody_def addPoint_def update_def updateView_def deactivate_def paneViews_def
  subscribeClick_def subscribeCrosshairMove_def unsubscribeClick_def unsubscribeCrosshairMove_def
  new_tool_def committed_def cached_def convert_temp_def Let_def

lemmas ex_defs = ex_off_def ex_polled_def ex_moved_def ex_two_def ex_one_def ex_active_def
  ex_attached_def ex_host_def ex_click1_def ex_click2_def ex_move_def no_options_def

lemma ex_reachable:
  "reachable ex_attached" "reachable ex_active" "reachable ex_one" "reachable ex_two"
  "reachable ex_moved" "reachable ex_polled" "reachable ex_off"
  unfolding ex_off_def ex_polled_def ex_moved_def ex_two_def ex_one_def ex_active_def
    ex_attached_def
  by (intro reachable.intros)+

lemma ex_attached_facts:
  "active (tool ex_attached) = False"
  "chart (tool ex_attached) = None"
  "requestUpdate (tool ex_attached) = Some 7"
  by (simp_all add: ex_defs ops_defs)

lemma ex_active_facts:
  "active (tool ex_active) = True"
  "chart (tool ex_active) = Some 0"
  "series (tool ex_active) = Some 0"
  "charts ex_active 0 = \<lparr>clickSubs = [0], moveSubs = [1]\<rparr>"
  "committed ex_active = []"
  by (simp_all add: ex_defs ops_defs)

lemma ex_one_facts:
  "chart (tool ex_one) = Some 0"
  "series (tool ex_one) = Some 0"
  "committed ex_one = [\<lparr>pt_time = UTCTimestamp 100, pt_price = 10\<rparr>]"
  "cached ex_one = [\<lparr>vp_x = Some 100, vp_y = Some 290\<rparr>]"
  by (simp_all add: ex_defs ops_defs)

lemma ex_two_facts:
  "active (tool ex_two) = True"
  "chart (tool ex_two) = Some 0"
  "series (tool ex_two) = Some 0"
  "committed ex_two = [\<lparr>pt_time = UTCTimestamp 100, pt_price = 10\<rparr>,
                       \<lparr>pt_time = UTCTimestamp 200, pt_price = 20\<rparr>]"
  "cached ex_two = [\<lparr>vp_x = Some 100, vp_y = Some 290\<rparr>, \<lparr>vp_x = Some 200, vp_y = Some 280\<rparr>]"
  "tempPoint (tool ex_two) = None"
  "repaintLog ex_two = [7, 7]"
  by (simp_all add: ex_defs ops_defs)

lemma ex_polled_facts:
  "active (tool ex_polled) = True"
  "committed ex_polled = [\<lparr>pt_time = UTCTimestamp 100, pt_price = 10\<rparr>,
                          \<lparr>pt_time = UTCTimestamp 200, pt_price = 20\<rparr>]"
  "cached ex_polled = [\<lparr>vp_x = Some 100, vp_y = Some 290\<rparr>, \<lparr>vp_x = Some 200, vp_y = Some 280\<rparr>]"
  "tempPoint (tool ex_polled) = Some \<lparr>pt_time = UTCTimestamp 250, pt_price = 25\<rparr>"
  "tempViewPoint (view ex_polled) = Some \<lparr>vp_x = Some 250, vp_y = Some 275\<rparr>"
  "requestUpdate (tool ex_polled) = Some 7"
  "repaintLog ex_polled = [7, 7, 7]"
  by (simp_all add: ex_defs ops_defs)

lemma ex_off_facts:
  "active (tool ex_off) = False"
  "chart (tool ex_off) = None"
  "series (tool ex_off) = None"
  "committed ex_off = [\<lparr>pt_time = UTCTimestamp 100, pt_price = 10\<rparr>,
                       \<lparr>pt_time = UTCTimestamp 200, pt_price = 20\<rparr>]"
  "cached ex_off = [\<lparr>vp_x = Some 100, vp_y = Some 290\<rparr>, \<lparr>vp_x = Some 200, vp_y = Some 280\<rparr>]"
  "tempPoint (tool ex_off) = None"
  "tempViewPoint (view ex_off) = Some \<lparr>vp_x = Some 250, vp_y = Some 275\<rparr>"
  "repaintLog ex_off = [7, 7, 7, 7]"
  by (simp_all add: ex_defs ops_defs)


subsection \<open>The projection pass\<close>

lemma update_present:
  assumes "chart (tool w) = Some c" and "series (tool w) = Some s"
  shows "cached (update hst w) = convert_points hst s c (committed w)"
    and "committed (update hst w) = committed w"
    and "tempViewPoint (view (update hst w)) = convert_temp hst s c (tempPoint (tool w))"
  using assms by (simp_all add: update_def cached_def committed_def)

lemma length_filter_eq_iff: "length (filter P xs) = length xs \<longleftrightarrow> (\<forall>x \<in> set xs. P x)"
proof
  assume "length (filter P xs) = length xs"
  then show "\<forall>x \<in> set xs. P x"
    using length_filter_less [of _ xs P] by fastforce
next
  assume "\<forall>x \<in> set xs. P x"
  then show "length (filter P xs) = length xs" by (simp add: filter_id_conv [THEN iffD2])
qed

text \<open>
  C1, as the claim states it, fails: after a click at time 100 and a scroll of the
  viewport that hides that time, a projection pass with both handles present leaves the
  cache empty while one point is committed.
\<close>

theorem update_keeps_length_counterexample:
  "chart (tool ex_one) = Some 0 \<and> series (tool ex_one) = Some 0 \<and>
   committed (update ex_host_scrolled ex_one) = [\<lparr>pt_time = UTCTimestamp 100, pt_price = 10\<rparr>] \<and>
   cached (update ex_host_scrolled ex_one) = [] \<and>
   length (cached (update ex_host_scrolled ex_one)) \<noteq>
     length (committed (update ex_host_scrolled ex_one))"
proof -
  have c: "chart (tool ex_one) = Some 0" and s: "series (tool ex_one) = Some 0"
    by (rule ex_one_facts)+
  have "cached (update ex_host_scrolled ex_one) = []"
    unfolding update_present(1) [OF c s] ex_one_facts
    by (simp add: ex_host_scrolled_def)
  then show ?thesis
    using c s update_present(2) [OF c s, of ex_host_scrolled] by (simp add: ex_one_facts)
qed

text \<open>
  C1, amended. After a projection pass with both handles present, the cache holds the
  projections of exactly the committed points that resolve, in the order of the
  committed points. An unresolved point is left out of the cache itself, so the cache is
  at most as long as the committed sequence, and as long exactly when every committed
  point resolves. The committed sequence is not touched.
\<close>

theorem update_caches_resolvable:
  assumes "chart (tool w) = Some c" and "series (tool w) = Some s"
  shows "cached (update hst w) =
           map (project hst s c) (filter (resolvable hst s c) (committed w)) \<and>
         committed (update hst w) = committed w \<and>
         length (cached (update hst w)) \<le> length (committed (update hst w)) \<and>
         (length (cached (update hst w)) = length (committed (update hst w)) \<longleftrightarrow>
            (\<forall>p \<in> set (committed w). resolvable hst s c p))"
  unfolding update_present(1,2) [OF assms] convert_points_filter
  by (simp add: length_filter_eq_iff)

theorem update_caches_resolvable_witness:
  "cached (update ex_host_scrolled ex_two) = [\<lparr>vp_x = Some 50, vp_y = Some 280\<rparr>] \<and>
   committed (update ex_host_scrolled ex_two) =
     [\<lparr>pt_time = UTCTimestamp 100, pt_price = 10\<rparr>, \<lparr>pt_time = UTCTimestamp 200, pt_price = 20\<rparr>] \<and>
   length (cached (update ex_host_scrolled ex_two)) \<le>
     length (committed (update ex_host_scrolled ex_two)) \<and>
   length (cached (update ex_host_scrolled ex_two)) \<noteq>
     length (committed (update ex_host_scrolled ex_two)) \<and>
   \<not> resolvable ex_host_scrolled 0 0 \<lparr>pt_time = UTCTimestamp 100, pt_price = 10\<rparr>"
proof -
  have c: "chart (tool ex_two) = Some 0" and s: "series (tool ex_two) = Some 0"
    by (rule ex_two_facts)+
  have v: "map (project ex_host_scrolled 0 0)
             (filter (resolvable ex_host_scrolled 0 0) (committed ex_two)) =
           [\<lparr>vp_x = Some 50, vp_y = Some 280\<rparr>]"
    by (simp add: ex_two_facts resolvable_def project_def ex_host_scrolled_def)
  have n: "\<not> resolvable ex_host_scrolled 0 0 \<lparr>pt_time = UTCTimestamp 100, pt_price = 10\<rparr>"
    by (simp add: resolvable_def ex_host_scrolled_def)
  show ?thesis
    using update_caches_resolvable [OF c s, of ex_host_scrolled] n
    unfolding v by (simp add: ex_two_facts)
qed




subsection \<open>Renderers and later changes\<close>

lemma update_frame:
  "nextAddr w \<le> nextAddr (update hst w)"
  "a < nextAddr w \<Longrightarrow> vpHeap (update hst w) a = vpHeap w a"
  "optHeap (update hst w) = optHeap w"
  "options (tool (update hst w)) = options (tool w)"
  by (simp_all add: update_def split: option.splits)

lemma updateView_frame:
  "nextAddr (updateView w) = nextAddr w"
  "vpHeap (updateView w) = vpHeap w"
  "optHeap (updateView w) = optHeap w"
  "ptHeap (updateView w) = ptHeap w"
  "tool (updateView w) = tool w"
  "view (updateView w) = view w"
  "charts (updateView w) = charts w"
  by (simp_all add: updateView_def split: option.splits)

lemma applyOptions_frame:
  "nextAddr w \<le> nextAddr (applyOptions po w)"
  "vpHeap (applyOptions po w) = vpHeap w"
  "a < nextAddr w \<Longrightarrow> optHeap (applyOptions po w) a = optHeap w a"
  "view (applyOptions po w) = view w"
  by (simp_all add: applyOptions_def updateView_frame)

lemma payload_update:
  assumes "r_points r < nextAddr w"
  shows "payload (update hst w) r = payload w r"
  using assms by (simp add: payload_def update_frame)

lemma payload_applyOptions:
  assumes "r_options r < nextAddr w"
  shows "payload (applyOptions po w) r = payload w r"
  using assms by (simp add: payload_def applyOptions_frame)

text \<open>
  C3. What a renderer obtained from \<open>renderer\<close> reads from its data (points, temp
  point, options) is the same after a later \<open>update\<close> of the pane view, after a later
  \<open>applyOptions\<close> on the tool, and after both in either order: \<open>update\<close> and
  \<open>applyOptions\<close> put their results into new objects and never write the array and
  the options object that the renderer holds.
\<close>

theorem renderer_payload_is_stable:
  assumes "reachable w"
  shows "payload (update hst w) (renderer w) = payload w (renderer w) \<and>
         payload (applyOptions po w) (renderer w) = payload w (renderer w) \<and>
         payload (applyOptions po (update hst w)) (renderer w) = payload w (renderer w) \<and>
         payload (update hst (applyOptions po w)) (renderer w) = payload w (renderer w)"
proof -
  have c: "consistent w" using assms by (rule reachable_consistent)
  have p: "r_points (renderer w) < nextAddr w" and o: "r_options (renderer w) < nextAddr w"
    using c by (simp_all add: consistent_def renderer_def)
  have p': "r_points (renderer w) < nextAddr (applyOptions po w)"
    using p applyOptions_frame(1) [of w po] by simp
  have o': "r_options (renderer w) < nextAddr (update hst w)"
    using o update_frame(1) [of w hst] by simp
  show ?thesis
    by (simp add: payload_update [OF p] payload_applyOptions [OF o]
          payload_update [OF p'] payload_applyOptions [OF o'])
qed


lemma payload_renderer:
  "payload w (renderer w) =
     \<lparr>d_points = cached w, d_options = currentOptions w, d_tempPoint = tempViewPoint (view w)\<rparr>"
  by (simp add: payload_def renderer_def cached_def currentOptions_def)

lemma ex_two_options: "currentOptions ex_two = defaultOptions"
  by (simp add: ex_defs ops_defs currentOptions_def spread_def)

lemma ex_restyled_facts:
  "cached (update ex_host_scrolled (applyOptions red_options ex_two)) =
     [\<lparr>vp_x = Some 50, vp_y = Some 280\<rparr>]"
  "color (currentOptions (update ex_host_scrolled (applyOptions red_options ex_two))) = ''#FF0000''"
  by (simp_all add: ex_defs ops_defs currentOptions_def spread_def applyOptions_def
        red_options_def ex_host_scrolled_def)

theorem renderer_payload_is_stable_witness:
  "payload (update ex_host_scrolled (applyOptions red_options ex_two)) (renderer ex_two) =
     \<lparr>d_points = [\<lparr>vp_x = Some 100, vp_y = Some 290\<rparr>, \<lparr>vp_x = Some 200, vp_y = Some 280\<rparr>],
      d_options = defaultOptions, d_tempPoint = None\<rparr> \<and>
   d_points (payload (update ex_host_scrolled (applyOptions red_options ex_two))
              (renderer (update ex_host_scrolled (applyOptions red_options ex_two)))) =
     [\<lparr>vp_x = Some 50, vp_y = Some 280\<rparr>] \<and>
   color (d_options (payload (update ex_host_scrolled (applyOptions red_options ex_two))
                      (renderer (update ex_host_scrolled (applyOptions red_options ex_two))))) =
     ''#FF0000''"
proof -
  have t: "tempViewPoint (view ex_two) = None"
    by (simp add: ex_defs ops_defs)
  have "payload (update ex_host_scrolled (applyOptions red_options ex_two)) (renderer ex_two) =
          payload ex_two (renderer ex_two)"
    using renderer_payload_is_stable [OF ex_reachable(4), of ex_host_scrolled red_options]
    by simp
  then show ?thesis
    by (simp add: payload_renderer ex_two_facts ex_two_options ex_restyled_facts t)
qed

subsection \<open>Activation\<close>

lemma deactivate_inactive: "\<not> active (tool (deactivate w)) \<or> deactivate w = w"
  by (simp add: deactivate_def updateView_frame Let_def split: option.splits)

text \<open>
  C7. \<open>activate\<close> on an active tool and \<open>deactivate\<close> on an inactive tool return
  the world as it is, whatever handles are passed; hence a second \<open>activate\<close> after an
  \<open>activate\<close> and a second \<open>deactivate\<close> after a \<open>deactivate\<close> change nothing.
\<close>

theorem activate_deactivate_idempotent:
  "(active (tool w) \<longrightarrow> activate c s w = w) \<and>
   (\<not> active (tool w) \<longrightarrow> deactivate w = w) \<and>
   activate c' s' (activate c s w) = activate c s w \<and>
   deactivate (deactivate w) = deactivate w"
proof (intro conjI impI)
  show "active (tool w) \<Longrightarrow> activate c s w = w"
    by (simp add: activate_def)
  show "\<not> active (tool w) \<Longrightarrow> deactivate w = w"
    by (simp add: deactivate_def)
  have "active (tool (activate c s w))"
    by (simp add: activate_def Let_def)
  then show "activate c' s' (activate c s w) = activate c s w"
    by (simp add: activate_def [of c' s'])
  show "deactivate (deactivate w) = deactivate w"
    using deactivate_inactive [of w]
  proof
    assume "\<not> active (tool (deactivate w))"
    then show ?thesis by (simp add: deactivate_def [of "deactivate w"])
  next
    assume "deactivate w = w"
    then show ?thesis by simp
  qed
qed

theorem activate_deactivate_idempotent_witness:
  "activate 5 6 ex_active = ex_active \<and>
   chart (tool (activate 5 6 ex_active)) = Some 0 \<and>
   charts (activate 5 6 ex_active) 5 = no_subs \<and>
   deactivate ex_attached = ex_attached \<and>
   activate 5 6 (activate 0 0 ex_attached) = activate 0 0 ex_attached \<and>
   deactivate (deactivate ex_polled) = deactivate ex_polled"
proof -
  have a: "active (tool ex_active)" and i: "\<not> active (tool ex_attached)"
    by (simp_all add: ex_active_facts ex_attached_facts)
  have n: "charts ex_active 5 = no_subs"
    by (simp add: ex_defs ops_defs no_subs_def)
  show ?thesis
    using activate_deactivate_idempotent [of ex_active 5 6 5 6]
          activate_deactivate_idempotent [of ex_attached 0 0 5 6]
          activate_deactivate_idempotent [of ex_polled 0 0 0 0] a i
    by (simp add: ex_active_facts n)
qed

subsection \<open>Clearing the points\<close>

text \<open>
  C9, as the claim states it, fails where it says that a repaint is requested in every
  state: a tool that was never attached has no repaint callback, and \<open>clearPoints\<close>
  on it calls nothing. The same holds after \<open>detached\<close>.
\<close>

theorem clearPoints_without_callback_counterexample:
  "reachable ex_new \<and>
   requestUpdate (tool ex_new) = None \<and>
   repaintLog (clearPoints ex_new) = repaintLog ex_new \<and>
   repaintLog (clearPoints ex_new) = [] \<and>
   reachable (detached ex_polled) \<and>
   requestUpdate (tool (detached ex_polled)) = None \<and>
   repaintLog (clearPoints (detached ex_polled)) = repaintLog (detached ex_polled)"
proof -
  have n: "requestUpdate (tool ex_new) = None" "repaintLog ex_new = []"
    by (simp_all add: ex_new_def new_tool_def)
  have d: "requestUpdate (tool (detached ex_polled)) = None"
    by (simp add: detached_def Let_def)
  have r: "reachable ex_new" "reachable (detached ex_polled)"
    unfolding ex_new_def by (intro reachable.intros ex_reachable)+
  have k: "requestUpdate (tool w) = None \<Longrightarrow> repaintLog (clearPoints w) = repaintLog w" for w
    by (simp add: clearPoints_def updateView_def)
  show ?thesis
    by (simp add: n d r k)
qed

text \<open>
  C9, amended. In every world, active or not, \<open>clearPoints\<close> leaves no committed
  point and no temp point and keeps the activation flag; then, if a repaint callback is
  attached (after \<open>attached\<close> and before \<open>detached\<close>), it requests a repaint by
  calling that callback once, and without a callback it requests nothing. Afterwards
  \<open>getPoints\<close> returns an empty array.
\<close>

theorem clearPoints_resets:
  "committed (clearPoints w) = [] \<and>
   tempPoint (tool (clearPoints w)) = None \<and>
   active (tool (clearPoints w)) = active (tool w) \<and>
   repaintLog (clearPoints w) =
     repaintLog w @ (case requestUpdate (tool w) of Some cb \<Rightarrow> [cb] | None \<Rightarrow> []) \<and>
   returned (getPoints (clearPoints w)) = []"
  by (simp add: clearPoints_def updateView_def committed_def returned_def getPoints_def
        split: option.splits)

theorem clearPoints_resets_witness:
  "committed (clearPoints ex_polled) = [] \<and>
   tempPoint (tool (clearPoints ex_polled)) = None \<and>
   active (tool (clearPoints ex_polled)) \<and>
   repaintLog ex_polled = [7, 7, 7] \<and>
   repaintLog (clearPoints ex_polled) = [7, 7, 7, 7] \<and>
   returned (getPoints (clearPoints ex_polled)) = [] \<and>
   committed (clearPoints ex_off) = [] \<and>
   \<not> active (tool (clearPoints ex_off)) \<and>
   committed (clearPoints ex_new) = [] \<and>
   repaintLog (clearPoints ex_new) = []"
proof -
  have n: "requestUpdate (tool ex_new) = None" "repaintLog ex_new = []"
    by (simp_all add: ex_new_def new_tool_def)
  show ?thesis
    using clearPoints_resets [of ex_polled] clearPoints_resets [of ex_off]
          clearPoints_resets [of ex_new]
    by (simp add: ex_polled_facts ex_off_facts n)
qed

subsection \<open>The cache holds drawable points only\<close>

lemma filter_all: "list_all P xs \<Longrightarrow> filter P xs = xs"
  by (induction xs) simp_all

text \<open>
  C10. After every call of \<open>update\<close>, and in every world that the operations produce,
  each entry of the cached sequence has both coordinates: a committed point that cannot
  be projected is left out, never stored with nulls. The committed-point entries of a
  payload made by the pane view therefore all pass the null tests of the renderer: when
  there is at least one, the stroked path joins every entry in order (and then the temp
  point, if any) and every entry gets a marker.
\<close>

theorem cached_points_are_drawable:
  assumes "reachable w"
  shows "(\<forall>p \<in> set (cached (update hst w)). vp_x p \<noteq> None \<and> vp_y p \<noteq> None) \<and>
         (\<forall>p \<in> set (d_points (payload w (renderer w))). vp_x p \<noteq> None \<and> vp_y p \<noteq> None) \<and>
         filter drawable (d_points (payload w (renderer w))) = d_points (payload w (renderer w)) \<and>
         (d_points (payload w (renderer w)) \<noteq> [] \<longrightarrow>
            segments (payload w (renderer w)) h v =
              chain (map (pixel_of h v) (d_points (payload w (renderer w))) @
                     temp_pixel h v (d_tempPoint (payload w (renderer w)))) \<and>
            markers (payload w (renderer w)) h v =
              map (marker_of (d_options (payload w (renderer w))) h v)
                (d_points (payload w (renderer w))))"
proof -
  have c: "list_all drawable (cached w)"
    using reachable_consistent [OF assms] by (simp add: consistent_def)
  have u: "list_all drawable (cached (update hst w))"
    using reachable_consistent [OF r_update [OF assms, of hst]] by (simp add: consistent_def)
  have pts: "d_points (payload w (renderer w)) = cached w"
    by (simp add: payload_renderer)
  have f: "filter drawable (cached w) = cached w"
    using c by (rule filter_all)
  have paint: "segments (payload w (renderer w)) h v =
              chain (map (pixel_of h v) (cached w) @
                     temp_pixel h v (d_tempPoint (payload w (renderer w)))) \<and>
            markers (payload w (renderer w)) h v =
              map (marker_of (d_options (payload w (renderer w))) h v) (cached w)"
    if ne: "cached w \<noteq> []"
  proof -
    obtain p ps where ps: "cached w = p # ps"
      using ne by (cases "cached w") auto
    have dp: "d_points (payload w (renderer w)) = p # ps"
      by (simp add: pts ps)
    have "drawable p" using c by (simp add: ps)
    from segments_first_drawable [OF dp this, of h v] f show ?thesis
      by (simp add: ps)
  qed
  show ?thesis
    using c u f paint by (auto simp: pts list_all_iff drawable_def)
qed

theorem cached_points_are_drawable_witness:
  "cached (update ex_host_scrolled ex_two) = [\<lparr>vp_x = Some 50, vp_y = Some 280\<rparr>] \<and>
   d_points (payload ex_polled (renderer ex_polled)) =
     [\<lparr>vp_x = Some 100, vp_y = Some 290\<rparr>, \<lparr>vp_x = Some 200, vp_y = Some 280\<rparr>] \<and>
   filter drawable (d_points (payload ex_polled (renderer ex_polled))) =
     d_points (payload ex_polled (renderer ex_polled)) \<and>
   segments (payload ex_polled (renderer ex_polled)) 1 1 =
     [((100, 290), (200, 280)), ((200, 280), (250, 275))] \<and>
   markers (payload ex_polled (renderer ex_polled)) 1 1 = [((100, 290), 4), ((200, 280), 4)]"
proof -
  have o: "currentOptions ex_polled = defaultOptions"
    by (simp add: ex_defs ops_defs currentOptions_def spread_def)
  have p: "payload ex_polled (renderer ex_polled) =
             \<lparr>d_points = [\<lparr>vp_x = Some 100, vp_y = Some 290\<rparr>, \<lparr>vp_x = Some 200, vp_y = Some 280\<rparr>],
              d_options = defaultOptions,
              d_tempPoint = Some \<lparr>vp_x = Some 250, vp_y = Some 275\<rparr>\<rparr>"
    by (simp add: payload_renderer ex_polled_facts o)
  have v: "chain (map (pixel_of 1 1) (d_points (payload ex_polled (renderer ex_polled))) @
                  temp_pixel 1 1 (d_tempPoint (payload ex_polled (renderer ex_polled)))) =
           [((100, 290), (200, 280)), ((200, 280), (250, 275))]"
          "map (marker_of (d_options (payload ex_polled (renderer ex_polled))) 1 1)
             (d_points (payload ex_polled (renderer ex_polled))) =
           [((100, 290), 4), ((200, 280), 4)]"
    by (simp_all add: p pixel_of_def temp_pixel_def temp_xy_def marker_of_def math_round_def
          defaultOptions_def)
  have e: "cached (update ex_host_scrolled ex_two) = [\<lparr>vp_x = Some 50, vp_y = Some 280\<rparr>]"
    by (simp add: ex_defs ops_defs ex_host_scrolled_def)
  have n: "d_points (payload ex_polled (renderer ex_polled)) \<noteq> []"
    by (simp add: p)
  show ?thesis
    using cached_points_are_drawable [OF ex_reachable(6), of ex_host 1 1] n e
    unfolding v by (simp add: p)
qed

subsection \<open>Clicks\<close>

lemma update_keeps:
  "tool (update hst w) = tool w"
  "ptHeap (update hst w) = ptHeap w"
  "charts (update hst w) = charts w"
  "repaintLog (update hst w) = repaintLog w"
  by (simp_all add: update_def split: option.splits)

lemma addPoint_Some:
  "tool (addPoint hst (Some t) (Some pr) w) = tool w"
  "charts (addPoint hst (Some t) (Some pr) w) = charts w"
  "committed (addPoint hst (Some t) (Some pr) w) = committed w @ [\<lparr>pt_time = t, pt_price = pr\<rparr>]"
  by (simp_all add: addPoint_def updateView_frame update_keeps committed_def)

lemma clickHandlerBody_clicked:
  assumes "active (tool w)" and "series (tool w) = Some s"
  shows "clickHandlerBody hst e w =
           (case clicked s (hst, e) of
              None \<Rightarrow> w
            | Some pt \<Rightarrow> addPoint hst (Some (pt_time pt)) (Some (pt_price pt)) w)"
  using assms by (simp add: clickHandlerBody_def clicked_def split: option.splits)

lemma fireClick_registered:
  assumes "consistent w" and "active (tool w)" and "chart (tool w) = Some c"
  shows "fireClick hst c e w = clickHandlerBody hst e w"
  using assms
  by (auto simp: fireClick_def consistent_def registered_def split: option.splits)

lemma fireClick_active:
  assumes "consistent w" and "active (tool w)" and "chart (tool w) = Some c"
    and "series (tool w) = Some s"
  shows "tool (fireClick hst c e w) = tool w"
    and "committed (fireClick hst c e w) =
           committed w @ (case clicked s (hst, e) of None \<Rightarrow> [] | Some pt \<Rightarrow> [pt])"
  unfolding fireClick_registered [OF assms(1-3)] clickHandlerBody_clicked [OF assms(2,4)]
  by (simp_all add: addPoint_Some split: option.splits)

lemma clicks_active:
  assumes "consistent w" and "active (tool w)" and "chart (tool w) = Some c"
    and "series (tool w) = Some s"
  shows "committed (clicks c es w) = committed w @ List.map_filter (clicked s) es"
  using assms
proof (induction es arbitrary: w)
  case Nil
  then show ?case by (simp add: clicks_def List.map_filter_simps)
next
  case (Cons e es)
  let ?w = "fireClick (fst e) c (snd e) w"
  have t: "tool ?w = tool w"
    by (rule fireClick_active(1) [OF Cons.prems])
  have "committed (clicks c es ?w) = committed ?w @ List.map_filter (clicked s) es"
    using Cons.prems by (intro Cons.IH consistent_fireClick) (simp_all add: t)
  moreover have "clicks c (e # es) w = clicks c es ?w"
    by (simp add: clicks_def)
  ultimately show ?case
    using fireClick_active(2) [OF Cons.prems, of "fst e" "snd e"]
    by (simp add: List.map_filter_simps split: option.splits)
qed

lemma getPoints_copy:
  assumes "consistent w"
  shows "returned (getPoints w) = committed w"
    and "committed (snd (getPoints w)) = committed w"
    and "fst (getPoints w) \<noteq> points (tool (snd (getPoints w)))"
    and "committed ((snd (getPoints w))\<lparr>ptHeap := (ptHeap (snd (getPoints w)))(fst (getPoints w) := xs)\<rparr>) =
           committed w"
  using assms by (auto simp: getPoints_def returned_def committed_def consistent_def)


text \<open>
  C5. For clicks whose time the handler's test \<^verbatim>\<open>!param.time\<close> lets through, the
  lemma \<open>clicks_active\<close> gives the points in click order, and \<open>getPoints_copy\<close>
  that a write to the returned array (a slot or its length) leaves the committed array as
  it is; the elements themselves are shared by the copy. The test
  also rejects the timestamp 0, a time of the chart like any other: on an active tool a
  click at pixel (0, 290) with time 0, whose y-coordinate converts to the price 10, is
  dropped, and of two clicks only the second is returned by \<open>getPoints\<close>. The tool's
  own \<open>_addPoint\<close>, which tests its argument against \<^verbatim>\<open>undefined\<close> and \<^verbatim>\<open>null\<close>
  only, commits the same point.
\<close>

theorem click_at_time_zero_is_dropped:
  "active (tool ex_active) \<and>
   ev_point ex_click_epoch = Some (0, 290) \<and>
   ev_time ex_click_epoch = Some (UTCTimestamp 0) \<and>
   coordinateToPrice ex_host 0 290 = Some 10 \<and>
   fireClick ex_host 0 ex_click_epoch ex_active = ex_active \<and>
   returned (getPoints (fireClick ex_host 0 ex_click_epoch ex_active)) = [] \<and>
   returned (getPoints (clicks 0 [(ex_host, ex_click_epoch), (ex_host, ex_click1)] ex_active)) =
     [\<lparr>pt_time = UTCTimestamp 100, pt_price = 10\<rparr>] \<and>
   committed (addPoint ex_host (Some (UTCTimestamp 0)) (Some 10) ex_active) =
     [\<lparr>pt_time = UTCTimestamp 0, pt_price = 10\<rparr>]"
proof -
  have c: "consistent ex_active"
    by (rule reachable_consistent) (rule ex_reachable)
  have a: "active (tool ex_active)" "chart (tool ex_active) = Some 0" "series (tool ex_active) = Some 0"
    by (simp_all add: ex_active_facts)
  have z: "clicked 0 (ex_host, ex_click_epoch) = None"
    by (simp add: clicked_def ex_click_epoch_def)
  have o: "clicked 0 (ex_host, ex_click1) = Some \<lparr>pt_time = UTCTimestamp 100, pt_price = 10\<rparr>"
    by (simp add: clicked_def ex_click1_def ex_host_def)
  have 1: "fireClick ex_host 0 ex_click_epoch ex_active = ex_active"
    unfolding fireClick_registered [OF c a(1,2)] clickHandlerBody_clicked [OF a(1,3)]
    by (simp add: z)
  have 2: "committed (clicks 0 [(ex_host, ex_click_epoch), (ex_host, ex_click1)] ex_active) =
             [\<lparr>pt_time = UTCTimestamp 100, pt_price = 10\<rparr>]"
    unfolding clicks_active [OF c a]
    by (simp add: List.map_filter_simps z o ex_active_facts)
  have 3: "returned (getPoints w) = committed w" for w
    by (simp add: returned_def getPoints_def committed_def)
  show ?thesis
    by (simp add: 1 2 3 a addPoint_Some ex_active_facts)
       (simp add: ex_click_epoch_def ex_host_def)
qed

subsection \<open>Leaving drawing mode\<close>

lemma deactivate_active:
  assumes "consistent w" and "active (tool w)"
  shows "tool (deactivate w) =
           (tool w)\<lparr>toolbarButton := map_option (\<lambda>b. inactiveStyle) (toolbarButton (tool w)),
                    clickHandler := None, moveHandler := None, active := False,
                    chart := None, series := None, tempPoint := None\<rparr>"
    and "charts (deactivate w) = (\<lambda>c. no_subs)"
    and "ptHeap (deactivate w) = ptHeap w"
    and "repaintLog (deactivate w) =
           repaintLog w @ (case requestUpdate (tool w) of Some cb \<Rightarrow> [cb] | None \<Rightarrow> [])"
    and "nextClosure (deactivate w) = nextClosure w"
  using assms
  by (auto simp: deactivate_def consistent_def registered_def updateView_def Let_def
        unsubscribeClick_def unsubscribeCrosshairMove_def no_subs_def fun_eq_iff
        split: option.splits)

text \<open>
  C6, as the claim states it, fails where it says that a repaint is requested in every
  active state: a tool that was activated without having been attached has no repaint
  callback, and \<open>deactivate\<close> on it calls nothing.
\<close>

theorem deactivate_without_callback_counterexample:
  "reachable ex_unattached \<and>
   active (tool ex_unattached) \<and>
   requestUpdate (tool ex_unattached) = None \<and>
   \<not> active (tool (deactivate ex_unattached)) \<and>
   repaintLog (deactivate ex_unattached) = repaintLog ex_unattached \<and>
   repaintLog (deactivate ex_unattached) = []"
proof -
  have r: "reachable ex_unattached"
    unfolding ex_unattached_def ex_new_def by (intro reachable.intros)
  have f: "active (tool ex_unattached)" "requestUpdate (tool ex_unattached) = None"
    "chart (tool ex_unattached) = Some 0" "repaintLog ex_unattached = []"
    by (simp_all add: ex_unattached_def ex_new_def new_tool_def activate_def Let_def)
  have "\<not> active (tool (deactivate ex_unattached))" "repaintLog (deactivate ex_unattached) = []"
    by (simp_all add: deactivate_def updateView_def Let_def f split: option.splits)
  then show ?thesis
    by (simp add: r f)
qed

text \<open>
  C6, amended. On an active tool, whatever the temp point, \<open>deactivate\<close> sets the temp
  point to null and keeps the committed points; it removes the click and the move handler
  from the chart and forgets them, so that no chart has a subscriber left and a click or
  a move delivered by any chart changes nothing; it clears the chart and series handles
  and the activation flag; and, if a repaint callback is attached, it requests a repaint
  by calling that callback once, while without a callback it requests nothing. After the
  next \<open>activate\<close> both handlers are registered again and a click that the handler
  accepts is committed.
\<close>

theorem deactivate_leaves_drawing_mode:
  assumes "reachable w" and "active (tool w)"
  shows "tempPoint (tool (deactivate w)) = None \<and>
         committed (deactivate w) = committed w \<and>
         clickHandler (tool (deactivate w)) = None \<and>
         moveHandler (tool (deactivate w)) = None \<and>
         clickSubs (charts (deactivate w) c) = [] \<and>
         moveSubs (charts (deactivate w) c) = [] \<and>
         fireClick hst c e (deactivate w) = deactivate w \<and>
         fireMove hst c e (deactivate w) = deactivate w \<and>
         chart (tool (deactivate w)) = None \<and>
         series (tool (deactivate w)) = None \<and>
         \<not> active (tool (deactivate w)) \<and>
         repaintLog (deactivate w) =
           repaintLog w @ (case requestUpdate (tool w) of Some cb \<Rightarrow> [cb] | None \<Rightarrow> []) \<and>
         clickSubs (charts (activate c s (deactivate w)) c) = [nextClosure w] \<and>
         moveSubs (charts (activate c s (deactivate w)) c) = [Suc (nextClosure w)] \<and>
         committed (fireClick hst c e (activate c s (deactivate w))) =
           committed w @ (case clicked s (hst, e) of None \<Rightarrow> [] | Some pt \<Rightarrow> [pt])"
proof -
  have c: "consistent w" using assms(1) by (rule reachable_consistent)
  note d = deactivate_active [OF c assms(2)]
  have subs: "clickSubs (charts (deactivate w) c) = []" "moveSubs (charts (deactivate w) c) = []"
    by (simp_all add: d no_subs_def)
  have com: "committed (deactivate w) = committed w"
    by (simp add: committed_def d)
  let ?w = "activate c s (deactivate w)"
  have rw: "consistent ?w"
    by (intro reachable_consistent reachable.intros assms(1))
  have aw: "active (tool ?w)" "chart (tool ?w) = Some c" "series (tool ?w) = Some s"
    by (simp_all add: activate_def d Let_def)
  have cw: "committed ?w = committed w"
    by (simp add: activate_def d Let_def committed_def)
  have again: "clickSubs (charts ?w c) = [nextClosure w]"
              "moveSubs (charts ?w c) = [Suc (nextClosure w)]"
    by (simp_all add: activate_def d Let_def subscribeClick_def subscribeCrosshairMove_def
          no_subs_def)
  have quiet: "fireClick hst c e (deactivate w) = deactivate w"
              "fireMove hst c e (deactivate w) = deactivate w"
    by (simp_all add: fireClick_def fireMove_def subs)
  have t: "tempPoint (tool (deactivate w)) = None" "clickHandler (tool (deactivate w)) = None"
    "moveHandler (tool (deactivate w)) = None" "chart (tool (deactivate w)) = None"
    "series (tool (deactivate w)) = None" "\<not> active (tool (deactivate w))"
    by (simp_all add: d(1))
  show ?thesis
    using fireClick_active(2) [OF rw aw, of hst e] d(4)
    by (simp only: t com subs quiet again cw) simp
qed

theorem deactivate_leaves_drawing_mode_witness:
  "tempPoint (tool ex_polled) = Some \<lparr>pt_time = UTCTimestamp 250, pt_price = 25\<rparr> \<and>
   tempPoint (tool (deactivate ex_polled)) = None \<and>
   committed (deactivate ex_polled) =
     [\<lparr>pt_time = UTCTimestamp 100, pt_price = 10\<rparr>, \<lparr>pt_time = UTCTimestamp 200, pt_price = 20\<rparr>] \<and>
   clickSubs (charts ex_polled 0) = [0] \<and>
   clickSubs (charts (deactivate ex_polled) 0) = [] \<and>
   moveSubs (charts (deactivate ex_polled) 0) = [] \<and>
   fireClick ex_host 0 ex_click1 (deactivate ex_polled) = deactivate ex_polled \<and>
   fireMove ex_host 0 ex_click1 (deactivate ex_polled) = deactivate ex_polled \<and>
   chart (tool (deactivate ex_polled)) = None \<and>
   series (tool (deactivate ex_polled)) = None \<and>
   \<not> active (tool (deactivate ex_polled)) \<and>
   repaintLog (deactivate ex_polled) = [7, 7, 7, 7] \<and>
   committed (fireClick ex_host 0 ex_click1 (activate 0 0 (deactivate ex_polled))) =
     [\<lparr>pt_time = UTCTimestamp 100, pt_price = 10\<rparr>, \<lparr>pt_time = UTCTimestamp 200, pt_price = 20\<rparr>,
      \<lparr>pt_time = UTCTimestamp 100, pt_price = 10\<rparr>] \<and>
   tempPoint (tool (deactivate ex_unattached)) = None \<and>
   \<not> active (tool (deactivate ex_unattached)) \<and>
   repaintLog (deactivate ex_unattached) = []"
proof -
  have a: "active (tool ex_polled)" by (simp add: ex_polled_facts)
  have r: "reachable ex_unattached"
    unfolding ex_unattached_def ex_new_def by (intro reachable.intros)
  have u: "active (tool ex_unattached)" "requestUpdate (tool ex_unattached) = None"
    "repaintLog ex_unattached = []"
    by (simp_all add: ex_unattached_def ex_new_def new_tool_def activate_def Let_def)
  have o: "clicked 0 (ex_host, ex_click1) = Some \<lparr>pt_time = UTCTimestamp 100, pt_price = 10\<rparr>"
    by (simp add: clicked_def ex_click1_def ex_host_def)
  have s: "clickSubs (charts ex_polled 0) = [0]"
    by (simp add: ex_defs ops_defs)
  show ?thesis
    using deactivate_leaves_drawing_mode [OF ex_reachable(6) a, of 0 ex_host ex_click1 0]
          deactivate_leaves_drawing_mode [OF r u(1), of 0 ex_host ex_click1 0]
    by (simp add: ex_polled_facts o s u)
qed

end
